theory Spec2Isabelle
  imports Main
begin

section \<open>Face detector: rectangles, the working raster and the expansion of a detection\<close>

text \<open>
  The repository holds two programs of package \<open>main\<close>: the batch driver (\<open>main.go\<close>,
  functions \<open>detectFace\<close>, \<open>cropAndSaveFace\<close>, \<open>processImages\<close>, \<open>main\<close>) and a
  single-image driver (the second source file, functions \<open>detectFace\<close>,
  \<open>cropAndSaveFace\<close>, \<open>processImage\<close>, \<open>main\<close>). Where the two files define a
  function of the same name with a different body, the single-image one carries the
  suffix \<open>_single\<close> here.

  Go's \<open>int\<close> is modelled as \<open>int\<close>: every coordinate is a pixel coordinate of a raster
  whose sides are C \<open>int\<close>s, so none of the sums below comes near the 64-bit bounds.
  Go's \<open>/\<close> truncates towards zero, HOL's \<open>div\<close> rounds down: \<open>quo\<close> is Go's.
  \<open>image.Rect\<close>, \<open>Dx\<close>, \<open>Dy\<close>, \<open>filepath.Base\<close> and \<open>filepath.Ext\<close> are
  written out as Go's standard library defines them. \<open>resizeImage\<close> is called by
  neither program and is left out.
\<close>

subsection \<open>Integers\<close>

definition quo :: "int \<Rightarrow> int \<Rightarrow> int" where
  \<comment> \<open>Go's integer division \<open>a / b\<close>, which truncates; the divisor is the constant 2
      wherever the programs divide\<close>
  "quo a b = sgn a * sgn b * (\<bar>a\<bar> div \<bar>b\<bar>)"

definition max_go :: "int \<Rightarrow> int \<Rightarrow> int" where
  \<comment> \<open>\<open>func max(a, b int) int\<close>\<close>
  "max_go a b = (if a > b then a else b)"

definition min_go :: "int \<Rightarrow> int \<Rightarrow> int" where
  \<comment> \<open>\<open>func min(a, b int) int\<close>\<close>
  "min_go a b = (if a < b then a else b)"

subsection \<open>\<open>image.Point\<close> and \<open>image.Rectangle\<close>\<close>

record Point =
  Pt_X :: int
  Pt_Y :: int

record Rectangle =
  Rect_Min :: Point
  Rect_Max :: Point

definition Rect :: "int \<Rightarrow> int \<Rightarrow> int \<Rightarrow> int \<Rightarrow> Rectangle" where
  \<comment> \<open>\<open>image.Rect(x0, y0, x1, y1)\<close>: the coordinates are swapped where needed, so that
      the rectangle returned is well-formed\<close>
  "Rect x0 y0 x1 y1 =
     (let (x0', x1') = (if x0 > x1 then (x1, x0) else (x0, x1));
          (y0', y1') = (if y0 > y1 then (y1, y0) else (y0, y1))
      in \<lparr>Rect_Min = \<lparr>Pt_X = x0', Pt_Y = y0'\<rparr>, Rect_Max = \<lparr>Pt_X = x1', Pt_Y = y1'\<rparr>\<rparr>)"

definition Dx :: "Rectangle \<Rightarrow> int" where
  "Dx r = Pt_X (Rect_Max r) - Pt_X (Rect_Min r)"

definition Dy :: "Rectangle \<Rightarrow> int" where
  "Dy r = Pt_Y (Rect_Max r) - Pt_Y (Rect_Min r)"

subsection \<open>\<open>gocv.Mat\<close>\<close>

text \<open>
  A raster is its two sides and its pixels. The pixels are kept as the history of the
  operations that made them: reading a file, scaling, conversion to grey, drawing the
  outline of a rectangle, taking the view inside a rectangle. Any real pixel array is an
  interpretation of such a history, so what is proved of the history holds of the pixels.
\<close>

datatype pixels =
    Source string
  | Scaled pixels int int
  | Gray pixels
  | Outline pixels Rectangle
  | Sub pixels Rectangle

record Mat =
  mat_cols :: nat
  mat_rows :: nat
  mat_data :: pixels

definition Cols :: "Mat \<Rightarrow> int" where
  "Cols m = int (mat_cols m)"

definition Rows :: "Mat \<Rightarrow> int" where
  "Rows m = int (mat_rows m)"

definition Empty :: "Mat \<Rightarrow> bool" where
  "Empty m = (mat_cols m = 0 \<or> mat_rows m = 0)"

definition Resize :: "Mat \<Rightarrow> Point \<Rightarrow> Mat" where
  \<comment> \<open>\<open>gocv.Resize(src, &dst, sz, 0, 0, gocv.InterpolationLinear)\<close>: \<open>dst\<close> has size \<open>sz\<close>\<close>
  "Resize src sz =
     \<lparr>mat_cols = nat (Pt_X sz), mat_rows = nat (Pt_Y sz),
      mat_data = Scaled (mat_data src) (Pt_X sz) (Pt_Y sz)\<rparr>"

definition CvtColor :: "Mat \<Rightarrow> Mat" where
  \<comment> \<open>\<open>gocv.CvtColor(src, &dst, gocv.ColorBGRToGray)\<close>\<close>
  "CvtColor src = src\<lparr>mat_data := Gray (mat_data src)\<rparr>"

definition Rectangle_draw :: "Mat \<Rightarrow> Rectangle \<Rightarrow> Mat" where
  \<comment> \<open>\<open>gocv.Rectangle(&img, r, color.RGBA{255, 0, 0, 0}, 3)\<close>: draws on \<open>img\<close> in place\<close>
  "Rectangle_draw img r = img\<lparr>mat_data := Outline (mat_data img) r\<rparr>"

definition Region :: "Mat \<Rightarrow> Rectangle \<Rightarrow> Mat" where
  \<comment> \<open>\<open>img.Region(r)\<close>: the view of \<open>img\<close> inside \<open>r\<close>, as it is at the time of the call.
      The library accepts a rectangle inside the raster only; the rectangle the programs
      pass is inside it for every detection inside it (claim C5)\<close>
  "Region img r =
     \<lparr>mat_cols = nat (Dx r), mat_rows = nat (Dy r), mat_data = Sub (mat_data img) r\<rparr>"

subsection \<open>The expansion of a detection\<close>

definition cropRect :: "Mat \<Rightarrow> Rectangle \<Rightarrow> Rectangle" where
  \<comment> \<open>\<open>cropAndSaveFace\<close>, the rectangle cropped (the same text in both files)\<close>
  "cropRect img face =
     (let extraWidth = quo (Dx face) 2;
          extraHeightTop = quo (Dy face) 2;
          extraHeightBottom = Dy face
      in Rect
           (max_go 0 (Pt_X (Rect_Min face) - extraWidth))
           (max_go 0 (Pt_Y (Rect_Min face) - extraHeightTop))
           (min_go (Cols img) (Pt_X (Rect_Max face) + extraWidth))
           (min_go (Rows img) (Pt_Y (Rect_Max face) + extraHeightBottom)))"

definition expandedRect :: "Mat \<Rightarrow> Rectangle \<Rightarrow> Rectangle" where
  \<comment> \<open>\<open>detectFace\<close>, the rectangle drawn in the loop (the same text in both files)\<close>
  "expandedRect resizedImg face =
     (let extraWidth = quo (Dx face) 2;
          extraHeightTop = quo (Dy face) 2;
          extraHeightBottom = Dy face
      in Rect
           (max_go 0 (Pt_X (Rect_Min face) - extraWidth))
           (max_go 0 (Pt_Y (Rect_Min face) - extraHeightTop))
           (min_go (Cols resizedImg) (Pt_X (Rect_Max face) + extraWidth))
           (min_go (Rows resizedImg) (Pt_Y (Rect_Max face) + extraHeightBottom)))"

section \<open>Files, errors and the outside world\<close>

subsection \<open>Strings\<close>

definition nl :: string where
  \<comment> \<open>the line feed of the format strings\<close>
  "nl = [CHR 0x0A]"

definition dq :: string where
  \<comment> \<open>the double quote\<close>
  "dq = [CHR 0x22]"

fun digits :: "nat \<Rightarrow> string" where
  "digits n =
     (if n < 10 then [char_of (48 + n)] else digits (n div 10) @ [char_of (48 + n mod 10)])"

definition Itoa :: "int \<Rightarrow> string" where
  \<comment> \<open>the verb \<open>%d\<close> of \<open>fmt.Sprintf\<close>\<close>
  "Itoa i = (if i < 0 then CHR ''-'' # digits (nat (- i)) else digits (nat i))"

fun Ext_scan :: "string \<Rightarrow> string \<Rightarrow> string" where
  "Ext_scan [] suffix = []"
| "Ext_scan (c # cs) suffix =
     (if c = CHR ''/'' then []
      else if c = CHR ''.'' then c # suffix
      else Ext_scan cs (c # suffix))"

definition Ext :: "string \<Rightarrow> string" where
  \<comment> \<open>\<open>filepath.Ext\<close>: the suffix beginning at the final dot in the final element of the
      path, empty when that element has no dot\<close>
  "Ext path = Ext_scan (rev path) []"

definition Base :: "string \<Rightarrow> string" where
  \<comment> \<open>\<open>filepath.Base\<close>: the last element of the path, trailing separators removed first\<close>
  "Base path =
     (if path = [] then ''.''
      else let stripped = rev (dropWhile (\<lambda>c. c = CHR ''/'') (rev path));
               element = rev (takeWhile (\<lambda>c. c \<noteq> CHR ''/'') (rev stripped))
           in if element = [] then ''/'' else element)"

subsection \<open>Errors\<close>

datatype error =
    Err_cascade
  | Err_read_image
  | Err_to_image string
  | Err_encode string
  | Err_library string
  | Err_save_face error
  | Err_save_output error
  | Err_read_dir string
  | Err_detect error

fun Error :: "error \<Rightarrow> string" where
  \<comment> \<open>the message of each error, as \<open>fmt.Errorf\<close> builds it; \<open>Err_library\<close> is an error
      of a library returned as it is\<close>
  "Error Err_cascade = ''error loading Haar cascade file''"
| "Error Err_read_image = ''error reading image''"
| "Error (Err_to_image e) = ''failed to convert Mat to Image: '' @ e"
| "Error (Err_encode e) = ''failed to encode image to WebP: '' @ e"
| "Error (Err_library e) = e"
| "Error (Err_save_face err) = ''error saving face image: '' @ Error err"
| "Error (Err_save_output err) = ''error saving output image in WebP format: '' @ Error err"
| "Error (Err_read_dir e) = ''failed to read input directory: '' @ e"
| "Error (Err_detect err) = ''failed to detect face: '' @ Error err"

subsection \<open>The libraries and the file system\<close>

text \<open>
  What the libraries answer is a parameter of the model: whether the cascade file loads,
  what an image file holds, which rectangles the classifier returns, whether a raster
  converts, encodes and is written (\<open>None\<close>: no error; \<open>Some e\<close>: the library's error
  \<open>e\<close>), what a directory lists, and how \<open>filepath.Join\<close> and the JSON encoder render
  strings. The answers do not change during a run. The encoding is lossless, so a file is
  recorded with the raster it encodes; a write that fails records no file.
\<close>

record FileInfo =
  fi_Name :: string
  fi_IsDir :: bool

record env =
  classifier_Load :: "string \<Rightarrow> bool"
  gocv_IMRead :: "string \<Rightarrow> Mat"
  classifier_Detect :: "Mat \<Rightarrow> Rectangle list"
  mat_ToImage :: "Mat \<Rightarrow> string option"
  webp_Encode :: "Mat \<Rightarrow> string option"
  ioutil_WriteFile :: "string \<Rightarrow> Mat \<Rightarrow> string option"
  ioutil_ReadDir :: "string \<Rightarrow> string + FileInfo list"
  os_MkdirAll :: "string \<Rightarrow> string option"
  filepath_Join :: "string \<Rightarrow> string \<Rightarrow> string"
  json_string :: "string \<Rightarrow> string"

record world =
  files :: "(string \<times> Mat) list"
  stdout :: "string list"
  stderr :: "string list"

definition Printf :: "string \<Rightarrow> world \<Rightarrow> world" where
  "Printf s w = w\<lparr>stdout := stdout w @ [s]\<rparr>"

definition Fprintf_Stderr :: "string \<Rightarrow> world \<Rightarrow> world" where
  "Fprintf_Stderr s w = w\<lparr>stderr := stderr w @ [s]\<rparr>"

subsection \<open>Saving\<close>

definition saveAsWebP :: "env \<Rightarrow> Mat \<Rightarrow> string \<Rightarrow> world \<Rightarrow> world \<times> error option" where
  "saveAsWebP env img outputPath w =
     (case webp_Encode env img of
        Some e \<Rightarrow> (w, Some (Err_encode e))
      | None \<Rightarrow>
          (case ioutil_WriteFile env outputPath img of
             Some e \<Rightarrow> (w, Some (Err_library e))
           | None \<Rightarrow> (w\<lparr>files := files w @ [(outputPath, img)]\<rparr>, None)))"

definition saveMatAsWebP :: "env \<Rightarrow> Mat \<Rightarrow> string \<Rightarrow> world \<Rightarrow> world \<times> error option" where
  "saveMatAsWebP env mat outputPath w =
     (case mat_ToImage env mat of
        Some e \<Rightarrow> (w, Some (Err_to_image e))
      | None \<Rightarrow> saveAsWebP env mat outputPath w)"

section \<open>The batch driver\<close>

definition cropAndSaveFace ::
  "env \<Rightarrow> Mat \<Rightarrow> Rectangle \<Rightarrow> int \<Rightarrow> string \<Rightarrow> string \<Rightarrow> world \<Rightarrow> world \<times> error option" where
  "cropAndSaveFace env img face index outputDir baseFilename w =
     (let croppedImg = Region img (cropRect img face);
          outputPath =
            filepath_Join env outputDir (baseFilename @ ''_face_'' @ Itoa index @ ''.webp'')
      in saveMatAsWebP env croppedImg outputPath w)"

definition detectFace_baseFilename :: "string \<Rightarrow> string" where
  \<comment> \<open>\<open>detectFace\<close>: \<open>baseFilename := filepath.Base(imagePath)\<close>, then
      \<open>baseFilename[:len(baseFilename)-len(filepath.Ext(baseFilename))]\<close>\<close>
  "detectFace_baseFilename imagePath =
     (let baseFilename = Base imagePath
      in take (length baseFilename - length (Ext baseFilename)) baseFilename)"

fun detectFace_loop ::
  "env \<Rightarrow> string \<Rightarrow> string \<Rightarrow> int \<Rightarrow> Rectangle list \<Rightarrow> Mat \<Rightarrow> world
     \<Rightarrow> Mat \<times> world \<times> error option" where
  \<comment> \<open>\<open>for i, face := range faces\<close>, from index \<open>i\<close> on; the raster is drawn on in place\<close>
  "detectFace_loop env outputDir baseFilename i [] resizedImg w = (resizedImg, w, None)"
| "detectFace_loop env outputDir baseFilename i (face # faces) resizedImg w =
     (let resizedImg' = Rectangle_draw resizedImg (expandedRect resizedImg face)
      in case cropAndSaveFace env resizedImg' face (i + 1) outputDir baseFilename w of
           (w', Some err) \<Rightarrow> (resizedImg', w', Some (Err_save_face err))
         | (w', None) \<Rightarrow> detectFace_loop env outputDir baseFilename (i + 1) faces resizedImg' w')"

definition detectFace ::
  "env \<Rightarrow> string \<Rightarrow> string \<Rightarrow> string \<Rightarrow> nat \<Rightarrow> nat \<Rightarrow> world \<Rightarrow> world \<times> (error + bool)" where
  "detectFace env imagePath outputImagePath outputDir maxWidth maxHeight w =
     (if \<not> classifier_Load env ''haarcascade_frontalface_default.xml'' then (w, Inl Err_cascade)
      else
        let img = gocv_IMRead env imagePath
        in if Empty img then (w, Inl Err_read_image)
           else
             let resizedImg = Resize img \<lparr>Pt_X = int maxWidth, Pt_Y = int maxHeight\<rparr>;
                 grayImg = CvtColor resizedImg;
                 faces = classifier_Detect env grayImg
             in if length faces = 0 then (w, Inr False)
                else
                  case detectFace_loop env outputDir (detectFace_baseFilename imagePath) 0 faces
                         resizedImg w of
                       (resizedImg', w', Some err) \<Rightarrow> (w', Inl err)
                     | (resizedImg', w', None) \<Rightarrow>
                         (case saveMatAsWebP env resizedImg' outputImagePath w' of
                            (w'', Some err) \<Rightarrow> (w'', Inl (Err_save_output err))
                          | (w'', None) \<Rightarrow> (w'', Inr True)))"

fun processImages_loop ::
  "env \<Rightarrow> string \<Rightarrow> string \<Rightarrow> nat \<Rightarrow> nat \<Rightarrow> FileInfo list \<Rightarrow> world \<Rightarrow> world" where
  \<comment> \<open>\<open>for _, file := range files\<close>\<close>
  "processImages_loop env inputDir outputDir maxWidth maxHeight [] w = w"
| "processImages_loop env inputDir outputDir maxWidth maxHeight (file # rest) w =
     (if fi_IsDir file then processImages_loop env inputDir outputDir maxWidth maxHeight rest w
      else
        let inputPath = filepath_Join env inputDir (fi_Name file);
            outputImagePath =
              filepath_Join env outputDir (''output_'' @ fi_Name file @ ''.webp'');
            w1 = Printf (''Processing file: '' @ inputPath @ nl) w
        in case detectFace env inputPath outputImagePath outputDir maxWidth maxHeight w1 of
             (w2, Inl err) \<Rightarrow>
               processImages_loop env inputDir outputDir maxWidth maxHeight rest
                 (Printf (''Error processing file '' @ inputPath @ '': '' @ Error err @ nl) w2)
           | (w2, Inr _) \<Rightarrow>
               processImages_loop env inputDir outputDir maxWidth maxHeight rest w2)"

definition processImages ::
  "env \<Rightarrow> string \<Rightarrow> string \<Rightarrow> nat \<Rightarrow> nat \<Rightarrow> world \<Rightarrow> world \<times> error option" where
  "processImages env inputDir outputDir maxWidth maxHeight w =
     (case ioutil_ReadDir env inputDir of
        Inl e \<Rightarrow> (w, Some (Err_read_dir e))
      | Inr entries \<Rightarrow>
          (processImages_loop env inputDir outputDir maxWidth maxHeight entries w, None))"

definition main :: "env \<Rightarrow> world \<Rightarrow> world \<times> int" where
  \<comment> \<open>the world at the end and the exit status of the process\<close>
  "main env w =
     (let inputDir = ''input_images'';
          outputDir = ''output_images'';
          maxWidth = 1024;
          maxHeight = 1024
      in case os_MkdirAll env outputDir of
           Some e \<Rightarrow> (Fprintf_Stderr (''Error creating output directory: '' @ e @ nl) w, 1)
         | None \<Rightarrow>
             (case processImages env inputDir outputDir maxWidth maxHeight w of
                (w', Some err) \<Rightarrow> (Fprintf_Stderr (''Error: '' @ Error err @ nl) w', 1)
              | (w', None) \<Rightarrow> (w', 0)))"

section \<open>The single-image driver\<close>

definition cropAndSaveFace_single ::
  "env \<Rightarrow> Mat \<Rightarrow> Rectangle \<Rightarrow> string \<Rightarrow> int \<Rightarrow> world \<Rightarrow> world \<times> error option" where
  "cropAndSaveFace_single env img face outputImagePath index w =
     (let croppedImg = Region img (cropRect img face)
      in saveMatAsWebP env croppedImg (''face_'' @ Itoa index @ ''.webp'') w)"

fun detectFace_single_loop ::
  "env \<Rightarrow> string \<Rightarrow> int \<Rightarrow> Rectangle list \<Rightarrow> Mat \<Rightarrow> world \<Rightarrow> Mat \<times> world \<times> error option" where
  "detectFace_single_loop env outputImagePath i [] resizedImg w = (resizedImg, w, None)"
| "detectFace_single_loop env outputImagePath i (face # faces) resizedImg w =
     (let resizedImg' = Rectangle_draw resizedImg (expandedRect resizedImg face)
      in case cropAndSaveFace_single env resizedImg' face outputImagePath (i + 1) w of
           (w', Some err) \<Rightarrow> (resizedImg', w', Some (Err_save_face err))
         | (w', None) \<Rightarrow> detectFace_single_loop env outputImagePath (i + 1) faces resizedImg' w')"

definition detectFace_single ::
  "env \<Rightarrow> string \<Rightarrow> string \<Rightarrow> nat \<Rightarrow> nat \<Rightarrow> world \<Rightarrow> world \<times> (error + bool)" where
  "detectFace_single env imagePath outputImagePath maxWidth maxHeight w =
     (if \<not> classifier_Load env ''haarcascade_frontalface_default.xml'' then (w, Inl Err_cascade)
      else
        let img = gocv_IMRead env imagePath
        in if Empty img then (w, Inl Err_read_image)
           else
             let resizedImg = Resize img \<lparr>Pt_X = int maxWidth, Pt_Y = int maxHeight\<rparr>;
                 grayImg = CvtColor resizedImg;
                 faces = classifier_Detect env grayImg
             in if length faces = 0 then (w, Inr False)
                else
                  case detectFace_single_loop env outputImagePath 0 faces resizedImg w of
                    (resizedImg', w', Some err) \<Rightarrow> (w', Inl err)
                  | (resizedImg', w', None) \<Rightarrow>
                      (case saveMatAsWebP env resizedImg' outputImagePath w' of
                         (w'', Some err) \<Rightarrow> (w'', Inl (Err_save_output err))
                       | (w'', None) \<Rightarrow> (w'', Inr True)))"

definition MarshalIndent_log :: "env \<Rightarrow> string \<Rightarrow> string \<Rightarrow> bool \<Rightarrow> string" where
  \<comment> \<open>\<open>json.MarshalIndent(logData, "", "  ")\<close>: the keys of a map come out sorted\<close>
  "MarshalIndent_log env inputPath outputPath hasFace =
     ''{'' @ nl
     @ ''  '' @ dq @ ''has_face'' @ dq @ '': '' @ (if hasFace then ''true'' else ''false'')
     @ '','' @ nl
     @ ''  '' @ dq @ ''input_path'' @ dq @ '': '' @ json_string env inputPath @ '','' @ nl
     @ ''  '' @ dq @ ''output_path'' @ dq @ '': '' @ json_string env outputPath @ nl
     @ ''}''"

definition processImage ::
  "env \<Rightarrow> string \<Rightarrow> string \<Rightarrow> nat \<Rightarrow> nat \<Rightarrow> world \<Rightarrow> world \<times> error option" where
  "processImage env inputPath outputPath maxWidth maxHeight w =
     (case detectFace_single env inputPath outputPath maxWidth maxHeight w of
        (w', Inl err) \<Rightarrow> (w', Some (Err_detect err))
      | (w', Inr hasFace) \<Rightarrow>
          (Printf (''Image successfully processed and saved to: '' @ outputPath @ nl)
             (Printf (''Face detection log:'' @ nl
                        @ MarshalIndent_log env inputPath outputPath hasFace @ nl) w'),
           None))"

definition main_single :: "env \<Rightarrow> world \<Rightarrow> world \<times> int" where
  "main_single env w =
     (let inputPath = ''teest.jpg'';
          outputPath = ''output.webp'';
          maxWidth = 1024;
          maxHeight = 1024
      in case processImage env inputPath outputPath maxWidth maxHeight w of
           (w', Some err) \<Rightarrow> (Fprintf_Stderr (''Error: '' @ Error err @ nl) w', 1)
         | (w', None) \<Rightarrow> (w', 0))"

section \<open>Notions used to state the properties\<close>

definition no_files :: world where
  "no_files = \<lparr>files = [], stdout = [], stderr = []\<rparr>"

definition save_error :: "env \<Rightarrow> string \<Rightarrow> Mat \<Rightarrow> error option" where
  \<comment> \<open>the error, if any, that \<open>saveMatAsWebP\<close> returns for this path and raster\<close>
  "save_error env path m = snd (saveMatAsWebP env m path no_files)"

definition annotate :: "Mat \<Rightarrow> Rectangle list \<Rightarrow> Mat" where
  \<comment> \<open>the raster once the outlines of these detections are drawn, in their order\<close>
  "annotate img faces = foldl (\<lambda>m face. Rectangle_draw m (expandedRect m face)) img faces"

definition crop_of :: "Mat \<Rightarrow> Rectangle list \<Rightarrow> nat \<Rightarrow> Mat" where
  \<comment> \<open>the view cropped for the detection at position \<open>k\<close> (from 0), taken when the outlines
      of the detections at positions \<open>0..k\<close> are drawn and no other\<close>
  "crop_of img faces k =
     (let drawn = annotate img (take (Suc k) faces)
      in Region drawn (cropRect drawn (faces ! k)))"

definition crop_files :: "(int \<Rightarrow> string) \<Rightarrow> Mat \<Rightarrow> Rectangle list \<Rightarrow> (string \<times> Mat) list" where
  \<comment> \<open>one file for each detection, numbered from 1, under the naming \<open>name\<close>\<close>
  "crop_files name img faces =
     map (\<lambda>k. (name (1 + int k), crop_of img faces k)) [0..<length faces]"

fun first_failure :: "env \<Rightarrow> (string \<times> Mat) list \<Rightarrow> (nat \<times> error) option" where
  \<comment> \<open>the position and the error of the first of these files that cannot be saved\<close>
  "first_failure env [] = None"
| "first_failure env ((path, m) # rest) =
     (case save_error env path m of
        Some e \<Rightarrow> Some (0, e)
      | None \<Rightarrow> map_option (\<lambda>(k, e). (Suc k, e)) (first_failure env rest))"

fun outlines :: "pixels \<Rightarrow> Rectangle list" where
  \<comment> \<open>the outlines drawn on these pixels, in the order of drawing\<close>
  "outlines (Source path) = []"
| "outlines (Scaled p w h) = outlines p"
| "outlines (Gray p) = outlines p"
| "outlines (Outline p r) = outlines p @ [r]"
| "outlines (Sub p r) = outlines p"

definition face_path :: "env \<Rightarrow> string \<Rightarrow> string \<Rightarrow> int \<Rightarrow> string" where
  \<comment> \<open>the path of a crop in the batch driver\<close>
  "face_path env outputDir base index =
     filepath_Join env outputDir (base @ ''_face_'' @ Itoa index @ ''.webp'')"

definition face_path_single :: "int \<Rightarrow> string" where
  \<comment> \<open>the path of a crop in the single-image driver\<close>
  "face_path_single index = ''face_'' @ Itoa index @ ''.webp''"

fun save_faces ::
  "env \<Rightarrow> (int \<Rightarrow> string) \<Rightarrow> int \<Rightarrow> Rectangle list \<Rightarrow> Mat \<Rightarrow> world \<Rightarrow> Mat \<times> world \<times> error option" where
  \<comment> \<open>the loop of \<open>detectFace\<close> in either driver, the naming of the crops a parameter\<close>
  "save_faces env name i [] img w = (img, w, None)"
| "save_faces env name i (face # faces) img w =
     (let img' = Rectangle_draw img (expandedRect img face)
      in case saveMatAsWebP env (Region img' (cropRect img' face)) (name (i + 1)) w of
           (w', Some err) \<Rightarrow> (img', w', Some (Err_save_face err))
         | (w', None) \<Rightarrow> save_faces env name (i + 1) faces img' w')"

definition working_raster :: "env \<Rightarrow> string \<Rightarrow> nat \<Rightarrow> nat \<Rightarrow> Mat" where
  \<comment> \<open>\<open>resizedImg\<close> of \<open>detectFace\<close>, before anything is drawn on it\<close>
  "working_raster env imagePath maxWidth maxHeight =
     Resize (gocv_IMRead env imagePath) \<lparr>Pt_X = int maxWidth, Pt_Y = int maxHeight\<rparr>"

definition run_outcome ::
  "env \<Rightarrow> (string \<times> Mat) list \<Rightarrow> string \<Rightarrow> Mat \<Rightarrow> (string \<times> Mat) list \<times> (error + bool)" where
  \<comment> \<open>the files written and the result returned, for the crops that are due, the path of
      the main output and the annotated raster\<close>
  "run_outcome env crops outputImagePath annotated =
     (case first_failure env crops of
        Some (k, e) \<Rightarrow> (take k crops, Inl (Err_save_face e))
      | None \<Rightarrow>
          (case save_error env outputImagePath annotated of
             Some e \<Rightarrow> (crops, Inl (Err_save_output e))
           | None \<Rightarrow> (crops @ [(outputImagePath, annotated)], Inr True)))"

definition detect_outcome ::
  "env \<Rightarrow> (int \<Rightarrow> string) \<Rightarrow> string \<Rightarrow> string \<Rightarrow> nat \<Rightarrow> nat
     \<Rightarrow> (string \<times> Mat) list \<times> (error + bool)" where
  \<comment> \<open>the files written and the result returned by \<open>detectFace\<close>, the naming of the crops
      a parameter\<close>
  "detect_outcome env name imagePath outputImagePath maxWidth maxHeight =
     (if \<not> classifier_Load env ''haarcascade_frontalface_default.xml'' then ([], Inl Err_cascade)
      else if Empty (gocv_IMRead env imagePath) then ([], Inl Err_read_image)
      else
        let img = working_raster env imagePath maxWidth maxHeight;
            faces = classifier_Detect env (CvtColor img)
        in if faces = [] then ([], Inr False)
           else run_outcome env (crop_files name img faces) outputImagePath (annotate img faces))"

definition file_log :: "env \<Rightarrow> string \<Rightarrow> string \<Rightarrow> nat \<Rightarrow> nat \<Rightarrow> FileInfo \<Rightarrow> string list" where
  \<comment> \<open>the lines that the batch driver prints for one file of the input directory\<close>
  "file_log env inputDir outputDir maxWidth maxHeight file =
     (let inputPath = filepath_Join env inputDir (fi_Name file);
          outputImagePath = filepath_Join env outputDir (''output_'' @ fi_Name file @ ''.webp'')
      in (''Processing file: '' @ inputPath @ nl)
         # (case snd (detectFace env inputPath outputImagePath outputDir maxWidth maxHeight
                        no_files) of
              Inl err \<Rightarrow> [''Error processing file '' @ inputPath @ '': '' @ Error err @ nl]
            | Inr _ \<Rightarrow> []))"

section \<open>Example data\<close>

definition demo_raster :: Mat where
  \<comment> \<open>a working raster of 1024 by 1024\<close>
  "demo_raster =
     \<lparr>mat_cols = 1024, mat_rows = 1024, mat_data = Scaled (Source ''teest.jpg'') 1024 1024\<rparr>"

definition demo_face :: Rectangle where
  "demo_face = \<lparr>Rect_Min = \<lparr>Pt_X = 100, Pt_Y = 100\<rparr>, Rect_Max = \<lparr>Pt_X = 200, Pt_Y = 220\<rparr>\<rparr>"

definition corner_face :: Rectangle where
  "corner_face = \<lparr>Rect_Min = \<lparr>Pt_X = 0, Pt_Y = 0\<rparr>, Rect_Max = \<lparr>Pt_X = 40, Pt_Y = 40\<rparr>\<rparr>"

definition thin_face :: Rectangle where
  \<comment> \<open>of width 0 and height 20\<close>
  "thin_face = \<lparr>Rect_Min = \<lparr>Pt_X = 10, Pt_Y = 10\<rparr>, Rect_Max = \<lparr>Pt_X = 10, Pt_Y = 30\<rparr>\<rparr>"

definition point_face :: Rectangle where
  \<comment> \<open>of width 0 and height 0\<close>
  "point_face = \<lparr>Rect_Min = \<lparr>Pt_X = 5, Pt_Y = 5\<rparr>, Rect_Max = \<lparr>Pt_X = 5, Pt_Y = 5\<rparr>\<rparr>"

definition outside_face :: Rectangle where
  \<comment> \<open>to the right of \<open>demo_raster\<close>, not on it\<close>
  "outside_face = \<lparr>Rect_Min = \<lparr>Pt_X = 2000, Pt_Y = 100\<rparr>, Rect_Max = \<lparr>Pt_X = 2100, Pt_Y = 220\<rparr>\<rparr>"

definition whole_face :: Rectangle where
  \<comment> \<open>the whole of \<open>demo_raster\<close>\<close>
  "whole_face = \<lparr>Rect_Min = \<lparr>Pt_X = 0, Pt_Y = 0\<rparr>, Rect_Max = \<lparr>Pt_X = 1024, Pt_Y = 1024\<rparr>\<rparr>"

definition demo_env :: env where
  \<comment> \<open>the cascade file loads, \<open>broken.jpg\<close> does not decode, every other image holds
      the two detections \<open>demo_face\<close> and \<open>corner_face\<close>, every write succeeds\<close>
  "demo_env =
     \<lparr>classifier_Load = (\<lambda>file. file = ''haarcascade_frontalface_default.xml''),
      gocv_IMRead =
        (\<lambda>path. if path = ''input_images/broken.jpg''
                 then \<lparr>mat_cols = 0, mat_rows = 0, mat_data = Source path\<rparr>
                 else \<lparr>mat_cols = 640, mat_rows = 480, mat_data = Source path\<rparr>),
      classifier_Detect = (\<lambda>m. [demo_face, corner_face]),
      mat_ToImage = (\<lambda>m. None),
      webp_Encode = (\<lambda>m. None),
      ioutil_WriteFile = (\<lambda>path m. None),
      ioutil_ReadDir =
        (\<lambda>dir. if dir = ''input_images''
                then Inr [\<lparr>fi_Name = ''old'', fi_IsDir = True\<rparr>,
                          \<lparr>fi_Name = ''broken.jpg'', fi_IsDir = False\<rparr>,
                          \<lparr>fi_Name = ''a.jpg'', fi_IsDir = False\<rparr>]
                else Inl ''no such directory''),
      os_MkdirAll = (\<lambda>dir. None),
      filepath_Join = (\<lambda>dir file. dir @ ''/'' @ file),
      json_string = (\<lambda>s. dq @ s @ dq)\<rparr>"

definition demo_env_no_cascade :: env where
  \<comment> \<open>as \<open>demo_env\<close>, but the cascade file does not load\<close>
  "demo_env_no_cascade = demo_env\<lparr>classifier_Load := (\<lambda>file. False)\<rparr>"

definition demo_env_no_faces :: env where
  \<comment> \<open>as \<open>demo_env\<close>, but the classifier finds nothing\<close>
  "demo_env_no_faces = demo_env\<lparr>classifier_Detect := (\<lambda>m. [])\<rparr>"

definition demo_env_disk_full :: env where
  \<comment> \<open>as \<open>demo_env\<close>, but the crop of the second detection cannot be written\<close>
  "demo_env_disk_full =
     demo_env\<lparr>ioutil_WriteFile :=
       (\<lambda>path m. if path = ''output_images/teest_face_2.webp'' \<or> path = ''face_2.webp''
                  then Some ''disk full'' else None)\<rparr>"

definition demo_env_strict :: env where
  \<comment> \<open>as \<open>demo_env\<close>, but the encoder refuses a raster without pixels\<close>
  "demo_env_strict =
     demo_env\<lparr>webp_Encode := (\<lambda>m. if Empty m then Some ''empty image'' else None)\<rparr>"

section \<open>Properties of the expansion\<close>

lemma quo_nonneg: "0 \<le> a \<Longrightarrow> quo a 2 = a div 2"
  by (cases "a = 0") (simp_all add: quo_def)

lemma Rect_ordered:
  "x0 \<le> x1 \<Longrightarrow> y0 \<le> y1 \<Longrightarrow>
   Rect x0 y0 x1 y1 = \<lparr>Rect_Min = \<lparr>Pt_X = x0, Pt_Y = y0\<rparr>, Rect_Max = \<lparr>Pt_X = x1, Pt_Y = y1\<rparr>\<rparr>"
  by (simp add: Rect_def)

lemma clamp_ordered:
  "a \<le> b \<Longrightarrow> a \<le> W \<Longrightarrow> 0 \<le> b \<Longrightarrow> 0 \<le> W \<Longrightarrow> max_go 0 a \<le> min_go W b"
  by (simp add: max_go_def min_go_def)

lemma max_go_eq: "max_go a b = max a b"
  by (simp add: max_go_def)

lemma min_go_eq: "min_go a b = min a b"
  by (simp add: min_go_def)

lemma Rect_expansion:
  fixes l t r b W H :: int
  assumes "l \<le> r" and "t \<le> b" and "l \<le> W" and "0 \<le> r" and "t \<le> H" and "0 \<le> b"
    and "0 \<le> W" and "0 \<le> H"
  shows "Rect (max_go 0 (l - quo (r - l) 2)) (max_go 0 (t - quo (b - t) 2))
              (min_go W (r + quo (r - l) 2)) (min_go H (b + (b - t))) =
         \<lparr>Rect_Min = \<lparr>Pt_X = max 0 (l - (r - l) div 2), Pt_Y = max 0 (t - (b - t) div 2)\<rparr>,
          Rect_Max = \<lparr>Pt_X = min W (r + (r - l) div 2), Pt_Y = min H (b + (b - t))\<rparr>\<rparr>"
proof -
  have qw: "quo (r - l) 2 = (r - l) div 2" and qh: "quo (b - t) 2 = (b - t) div 2"
    using assms(1,2) by (simp_all add: quo_nonneg)
  have w2: "0 \<le> (r - l) div 2" and h2: "0 \<le> (b - t) div 2"
    using assms(1,2) by simp_all
  have x: "max_go 0 (l - (r - l) div 2) \<le> min_go W (r + (r - l) div 2)"
    using assms w2 by (intro clamp_ordered) linarith+
  have y: "max_go 0 (t - (b - t) div 2) \<le> min_go H (b + (b - t))"
    using assms h2 by (intro clamp_ordered) linarith+
  show ?thesis
    using Rect_ordered [OF x y] by (simp only: qw qh max_go_eq min_go_eq)
qed

lemma cropRect_eq:
  assumes "Pt_X (Rect_Min r) \<le> Pt_X (Rect_Max r)" and "Pt_Y (Rect_Min r) \<le> Pt_Y (Rect_Max r)"
    and "Pt_X (Rect_Min r) \<le> Cols img" and "0 \<le> Pt_X (Rect_Max r)"
    and "Pt_Y (Rect_Min r) \<le> Rows img" and "0 \<le> Pt_Y (Rect_Max r)"
  shows "cropRect img r =
           \<lparr>Rect_Min = \<lparr>Pt_X = max 0 (Pt_X (Rect_Min r) - (Pt_X (Rect_Max r) - Pt_X (Rect_Min r)) div 2),
                        Pt_Y = max 0 (Pt_Y (Rect_Min r) - (Pt_Y (Rect_Max r) - Pt_Y (Rect_Min r)) div 2)\<rparr>,
            Rect_Max = \<lparr>Pt_X = min (Cols img) (Pt_X (Rect_Max r) + (Pt_X (Rect_Max r) - Pt_X (Rect_Min r)) div 2),
                        Pt_Y = min (Rows img) (Pt_Y (Rect_Max r) + (Pt_Y (Rect_Max r) - Pt_Y (Rect_Min r)))\<rparr>\<rparr>"
proof -
  have "0 \<le> Cols img" and "0 \<le> Rows img"
    by (simp_all add: Cols_def Rows_def)
  from Rect_expansion [OF assms this] show ?thesis
    unfolding cropRect_def Dx_def Dy_def Let_def .
qed

lemma expandedRect_cropRect: "expandedRect img face = cropRect img face"
  by (simp add: expandedRect_def cropRect_def)

text \<open>
  Claim C1. For a detected rectangle \<open>r\<close> (well-formed, and lying on the raster: it
  begins no later than the raster ends and ends no earlier than the raster begins, as
  every rectangle inside the raster does), with \<open>w = r.right - r.left\<close>,
  \<open>h = r.bottom - r.top\<close> and raster sides \<open>W\<close>, \<open>H\<close>, both the rectangle cropped and the
  rectangle drawn are
  \<open>(max 0 (r.left - w div 2), max 0 (r.top - h div 2), min W (r.right + w div 2),
  min H (r.bottom + h))\<close>.
\<close>

theorem C1_expansion_formula:
  assumes "Pt_X (Rect_Min r) \<le> Pt_X (Rect_Max r)" and "Pt_Y (Rect_Min r) \<le> Pt_Y (Rect_Max r)"
    and "Pt_X (Rect_Min r) \<le> Cols img" and "0 \<le> Pt_X (Rect_Max r)"
    and "Pt_Y (Rect_Min r) \<le> Rows img" and "0 \<le> Pt_Y (Rect_Max r)"
    and "w = Pt_X (Rect_Max r) - Pt_X (Rect_Min r)"
    and "h = Pt_Y (Rect_Max r) - Pt_Y (Rect_Min r)"
  shows "cropRect img r =
           \<lparr>Rect_Min = \<lparr>Pt_X = max 0 (Pt_X (Rect_Min r) - w div 2),
                        Pt_Y = max 0 (Pt_Y (Rect_Min r) - h div 2)\<rparr>,
            Rect_Max = \<lparr>Pt_X = min (Cols img) (Pt_X (Rect_Max r) + w div 2),
                        Pt_Y = min (Rows img) (Pt_Y (Rect_Max r) + h)\<rparr>\<rparr>
       \<and> expandedRect img r =
           \<lparr>Rect_Min = \<lparr>Pt_X = max 0 (Pt_X (Rect_Min r) - w div 2),
                        Pt_Y = max 0 (Pt_Y (Rect_Min r) - h div 2)\<rparr>,
            Rect_Max = \<lparr>Pt_X = min (Cols img) (Pt_X (Rect_Max r) + w div 2),
                        Pt_Y = min (Rows img) (Pt_Y (Rect_Max r) + h)\<rparr>\<rparr>"
  unfolding expandedRect_cropRect assms(7,8)
  using cropRect_eq [OF assms(1-6)] by simp

theorem C1_expansion_formula_witness:
  "Pt_X (Rect_Min demo_face) \<le> Pt_X (Rect_Max demo_face)
   \<and> Pt_Y (Rect_Min demo_face) \<le> Pt_Y (Rect_Max demo_face)
   \<and> Pt_X (Rect_Min demo_face) \<le> Cols demo_raster \<and> 0 \<le> Pt_X (Rect_Max demo_face)
   \<and> Pt_Y (Rect_Min demo_face) \<le> Rows demo_raster \<and> 0 \<le> Pt_Y (Rect_Max demo_face)
   \<and> cropRect demo_raster demo_face =
         \<lparr>Rect_Min = \<lparr>Pt_X = 50, Pt_Y = 40\<rparr>, Rect_Max = \<lparr>Pt_X = 250, Pt_Y = 340\<rparr>\<rparr>
   \<and> expandedRect demo_raster demo_face =
         \<lparr>Rect_Min = \<lparr>Pt_X = 50, Pt_Y = 40\<rparr>, Rect_Max = \<lparr>Pt_X = 250, Pt_Y = 340\<rparr>\<rparr>"
proof -
  have h: "Pt_X (Rect_Min demo_face) \<le> Pt_X (Rect_Max demo_face)"
    "Pt_Y (Rect_Min demo_face) \<le> Pt_Y (Rect_Max demo_face)"
    "Pt_X (Rect_Min demo_face) \<le> Cols demo_raster" "0 \<le> Pt_X (Rect_Max demo_face)"
    "Pt_Y (Rect_Min demo_face) \<le> Rows demo_raster" "0 \<le> Pt_Y (Rect_Max demo_face)"
    "100 = Pt_X (Rect_Max demo_face) - Pt_X (Rect_Min demo_face)"
    "120 = Pt_Y (Rect_Max demo_face) - Pt_Y (Rect_Min demo_face)"
    by (simp_all add: demo_face_def demo_raster_def Cols_def Rows_def)
  have v: "Pt_X (Rect_Min demo_face) = 100" "Pt_Y (Rect_Min demo_face) = 100"
    "Pt_X (Rect_Max demo_face) = 200" "Pt_Y (Rect_Max demo_face) = 220"
    "Cols demo_raster = 1024" "Rows demo_raster = 1024"
    by (simp_all add: demo_face_def demo_raster_def Cols_def Rows_def)
  from C1_expansion_formula [OF h] show ?thesis
    by (simp add: v)
qed

text \<open>
  A rectangle that does not lie on the raster is outside what the classifier returns for
  it; there \<open>image.Rect\<close> swaps the clamped coordinates.
\<close>

lemma expansion_off_the_raster:
  "expandedRect demo_raster outside_face =
     \<lparr>Rect_Min = \<lparr>Pt_X = 1024, Pt_Y = 40\<rparr>, Rect_Max = \<lparr>Pt_X = 1950, Pt_Y = 340\<rparr>\<rparr>"
  by (simp add: expandedRect_def outside_face_def demo_raster_def Cols_def Rows_def Dx_def Dy_def
        quo_def max_go_def min_go_def Rect_def)

lemma scenario_corner:
  "expandedRect demo_raster corner_face =
     \<lparr>Rect_Min = \<lparr>Pt_X = 0, Pt_Y = 0\<rparr>, Rect_Max = \<lparr>Pt_X = 60, Pt_Y = 80\<rparr>\<rparr>"
  by (simp add: expandedRect_def corner_face_def demo_raster_def Cols_def Rows_def Dx_def Dy_def
        quo_def max_go_def min_go_def Rect_def)

lemma cropRect_inside:
  assumes "0 \<le> Pt_X (Rect_Min r)" and "Pt_X (Rect_Min r) \<le> Pt_X (Rect_Max r)"
    and "Pt_X (Rect_Max r) \<le> Cols img"
    and "0 \<le> Pt_Y (Rect_Min r)" and "Pt_Y (Rect_Min r) \<le> Pt_Y (Rect_Max r)"
    and "Pt_Y (Rect_Max r) \<le> Rows img"
  shows "cropRect img r =
           \<lparr>Rect_Min = \<lparr>Pt_X = max 0 (Pt_X (Rect_Min r) - (Pt_X (Rect_Max r) - Pt_X (Rect_Min r)) div 2),
                        Pt_Y = max 0 (Pt_Y (Rect_Min r) - (Pt_Y (Rect_Max r) - Pt_Y (Rect_Min r)) div 2)\<rparr>,
            Rect_Max = \<lparr>Pt_X = min (Cols img) (Pt_X (Rect_Max r) + (Pt_X (Rect_Max r) - Pt_X (Rect_Min r)) div 2),
                        Pt_Y = min (Rows img) (Pt_Y (Rect_Max r) + (Pt_Y (Rect_Max r) - Pt_Y (Rect_Min r)))\<rparr>\<rparr>"
  using assms by (intro cropRect_eq) linarith+

text \<open>
  Claim C5. For a rectangle \<open>r\<close> inside the raster (\<open>0 \<le> left \<le> right \<le> W\<close>,
  \<open>0 \<le> top \<le> bottom \<le> H\<close>) the expanded rectangle \<open>e\<close>, cropped and drawn, contains \<open>r\<close>,
  satisfies \<open>0 \<le> left' \<le> right' \<le> W\<close> and \<open>0 \<le> top' \<le> bottom' \<le> H\<close>, so that no
  coordinate is negative, and where \<open>r\<close> touches an edge of the raster the coordinate of
  \<open>e\<close> on that edge stays on it.
\<close>

theorem C5_expansion_contains_and_clamped:
  assumes "0 \<le> Pt_X (Rect_Min r)" and "Pt_X (Rect_Min r) \<le> Pt_X (Rect_Max r)"
    and "Pt_X (Rect_Max r) \<le> Cols img"
    and "0 \<le> Pt_Y (Rect_Min r)" and "Pt_Y (Rect_Min r) \<le> Pt_Y (Rect_Max r)"
    and "Pt_Y (Rect_Max r) \<le> Rows img"
    and "e = cropRect img r"
  shows "expandedRect img r = e
       \<and> Pt_X (Rect_Min e) \<le> Pt_X (Rect_Min r) \<and> Pt_Y (Rect_Min e) \<le> Pt_Y (Rect_Min r)
       \<and> Pt_X (Rect_Max r) \<le> Pt_X (Rect_Max e) \<and> Pt_Y (Rect_Max r) \<le> Pt_Y (Rect_Max e)
       \<and> 0 \<le> Pt_X (Rect_Min e) \<and> Pt_X (Rect_Min e) \<le> Pt_X (Rect_Max e)
       \<and> Pt_X (Rect_Max e) \<le> Cols img
       \<and> 0 \<le> Pt_Y (Rect_Min e) \<and> Pt_Y (Rect_Min e) \<le> Pt_Y (Rect_Max e)
       \<and> Pt_Y (Rect_Max e) \<le> Rows img
       \<and> (Pt_X (Rect_Min r) = 0 \<longrightarrow> Pt_X (Rect_Min e) = 0)
       \<and> (Pt_Y (Rect_Min r) = 0 \<longrightarrow> Pt_Y (Rect_Min e) = 0)
       \<and> (Pt_X (Rect_Max r) = Cols img \<longrightarrow> Pt_X (Rect_Max e) = Cols img)
       \<and> (Pt_Y (Rect_Max r) = Rows img \<longrightarrow> Pt_Y (Rect_Max e) = Rows img)"
proof -
  define w where "w = Pt_X (Rect_Max r) - Pt_X (Rect_Min r)"
  define h where "h = Pt_Y (Rect_Max r) - Pt_Y (Rect_Min r)"
  have w: "0 \<le> w" "0 \<le> w div 2" and h: "0 \<le> h" "0 \<le> h div 2"
    using assms(2,5) by (simp_all add: w_def h_def)
  have e: "e = \<lparr>Rect_Min = \<lparr>Pt_X = max 0 (Pt_X (Rect_Min r) - w div 2),
                            Pt_Y = max 0 (Pt_Y (Rect_Min r) - h div 2)\<rparr>,
                Rect_Max = \<lparr>Pt_X = min (Cols img) (Pt_X (Rect_Max r) + w div 2),
                            Pt_Y = min (Rows img) (Pt_Y (Rect_Max r) + h)\<rparr>\<rparr>"
    unfolding assms(7) w_def h_def by (rule cropRect_inside [OF assms(1-6)])
  have "expandedRect img r = e"
    by (simp add: assms(7) expandedRect_cropRect)
  moreover have "Pt_X (Rect_Min e) \<le> Pt_X (Rect_Min r)" "Pt_Y (Rect_Min e) \<le> Pt_Y (Rect_Min r)"
    using assms(1,4) w h by (simp_all add: e)
  moreover have "Pt_X (Rect_Max r) \<le> Pt_X (Rect_Max e)" "Pt_Y (Rect_Max r) \<le> Pt_Y (Rect_Max e)"
    using assms(3,6) w h by (simp_all add: e)
  moreover have "0 \<le> Pt_X (Rect_Min e)" "0 \<le> Pt_Y (Rect_Min e)"
    by (simp_all add: e)
  moreover have "Pt_X (Rect_Max e) \<le> Cols img" "Pt_Y (Rect_Max e) \<le> Rows img"
    by (simp_all add: e)
  moreover have "Pt_X (Rect_Min e) \<le> Pt_X (Rect_Max e)" "Pt_Y (Rect_Min e) \<le> Pt_Y (Rect_Max e)"
    using calculation(2-5) assms(2,5) by linarith+
  moreover have "Pt_X (Rect_Min r) = 0 \<longrightarrow> Pt_X (Rect_Min e) = 0"
    "Pt_Y (Rect_Min r) = 0 \<longrightarrow> Pt_Y (Rect_Min e) = 0"
    using w h by (simp_all add: e)
  moreover have "Pt_X (Rect_Max r) = Cols img \<longrightarrow> Pt_X (Rect_Max e) = Cols img"
    "Pt_Y (Rect_Max r) = Rows img \<longrightarrow> Pt_Y (Rect_Max e) = Rows img"
    using w h by (simp_all add: e)
  ultimately show ?thesis
    by blast
qed

theorem C5_expansion_contains_and_clamped_witness:
  "0 \<le> Pt_X (Rect_Min whole_face) \<and> Pt_X (Rect_Min whole_face) \<le> Pt_X (Rect_Max whole_face)
   \<and> Pt_X (Rect_Max whole_face) \<le> Cols demo_raster
   \<and> 0 \<le> Pt_Y (Rect_Min whole_face) \<and> Pt_Y (Rect_Min whole_face) \<le> Pt_Y (Rect_Max whole_face)
   \<and> Pt_Y (Rect_Max whole_face) \<le> Rows demo_raster
   \<and> Pt_X (Rect_Min whole_face) = 0 \<and> Pt_Y (Rect_Min whole_face) = 0
   \<and> Pt_X (Rect_Max whole_face) = Cols demo_raster
   \<and> Pt_Y (Rect_Max whole_face) = Rows demo_raster
   \<and> expandedRect demo_raster whole_face = cropRect demo_raster whole_face
   \<and> Pt_X (Rect_Min (cropRect demo_raster whole_face)) = 0
   \<and> Pt_Y (Rect_Min (cropRect demo_raster whole_face)) = 0
   \<and> Pt_X (Rect_Max (cropRect demo_raster whole_face)) = 1024
   \<and> Pt_Y (Rect_Max (cropRect demo_raster whole_face)) = 1024"
  using C5_expansion_contains_and_clamped
          [of whole_face demo_raster "cropRect demo_raster whole_face"]
  by (simp add: whole_face_def demo_raster_def Cols_def Rows_def)

text \<open>
  Claim C4, as the specification states it, fails: a rectangle of width 0 and height 20
  inside the raster is padded above and below, so its expansion is not the rectangle.
\<close>

theorem C4_degenerate_counterexample:
  "Dx thin_face = 0
   \<and> 0 \<le> Pt_X (Rect_Min thin_face) \<and> Pt_X (Rect_Max thin_face) \<le> Cols demo_raster
   \<and> 0 \<le> Pt_Y (Rect_Min thin_face) \<and> Pt_Y (Rect_Max thin_face) \<le> Rows demo_raster
   \<and> cropRect demo_raster thin_face =
         \<lparr>Rect_Min = \<lparr>Pt_X = 10, Pt_Y = 0\<rparr>, Rect_Max = \<lparr>Pt_X = 10, Pt_Y = 50\<rparr>\<rparr>
   \<and> cropRect demo_raster thin_face \<noteq> thin_face
   \<and> expandedRect demo_raster thin_face \<noteq> thin_face"
  by (simp add: expandedRect_def cropRect_def thin_face_def demo_raster_def Cols_def Rows_def
        Dx_def Dy_def quo_def max_go_def min_go_def Rect_def)

section \<open>Properties of saving and of the loop over the detections\<close>

lemma saveMatAsWebP_eq:
  "saveMatAsWebP env m path w =
     (case save_error env path m of
        Some e \<Rightarrow> (w, Some e)
      | None \<Rightarrow> (w\<lparr>files := files w @ [(path, m)]\<rparr>, None))"
  by (simp add: save_error_def saveMatAsWebP_def saveAsWebP_def split: option.split)

lemma detectFace_loop_eq:
  "detectFace_loop env outputDir base i faces img w =
     save_faces env (face_path env outputDir base) i faces img w"
  by (induction faces arbitrary: i img w)
     (simp_all add: cropAndSaveFace_def face_path_def Let_def)

lemma detectFace_single_loop_eq:
  "detectFace_single_loop env outputImagePath i faces img w =
     save_faces env face_path_single i faces img w"
  by (induction faces arbitrary: i img w)
     (simp_all add: cropAndSaveFace_single_def face_path_single_def Let_def)

lemma annotate_Nil: "annotate img [] = img"
  by (simp add: annotate_def)

lemma annotate_Cons:
  "annotate img (face # faces) = annotate (Rectangle_draw img (expandedRect img face)) faces"
  by (simp add: annotate_def)

lemma crop_of_0:
  "crop_of img (face # faces) 0 =
     Region (Rectangle_draw img (expandedRect img face))
       (cropRect (Rectangle_draw img (expandedRect img face)) face)"
  by (simp add: crop_of_def annotate_def Let_def)

lemma crop_of_Suc:
  "crop_of img (face # faces) (Suc k) =
     crop_of (Rectangle_draw img (expandedRect img face)) faces k"
  by (simp add: crop_of_def annotate_def)

lemma crop_files_Cons:
  "crop_files name img (face # faces) =
     (name 1, Region (Rectangle_draw img (expandedRect img face))
                (cropRect (Rectangle_draw img (expandedRect img face)) face))
     # crop_files (\<lambda>n. name (n + 1)) (Rectangle_draw img (expandedRect img face)) faces"
proof -
  have "[0..<length (face # faces)] = 0 # map Suc [0..<length faces]"
    by (simp add: upt_conv_Cons map_Suc_upt del: upt_Suc)
  then show ?thesis
    by (simp add: crop_files_def crop_of_0 crop_of_Suc comp_def add.commute add.left_commute)
qed

lemma save_faces_run:
  "save_faces env name i faces img w =
     (case first_failure env (crop_files (\<lambda>n. name (i + n)) img faces) of
        Some (k, e) \<Rightarrow>
          (annotate img (take (Suc k) faces),
           w\<lparr>files := files w @ take k (crop_files (\<lambda>n. name (i + n)) img faces)\<rparr>,
           Some (Err_save_face e))
      | None \<Rightarrow>
          (annotate img faces,
           w\<lparr>files := files w @ crop_files (\<lambda>n. name (i + n)) img faces\<rparr>, None))"
proof (induction faces arbitrary: i img w)
  case Nil
  then show ?case
    by (simp add: crop_files_def annotate_def)
next
  case (Cons face faces)
  have shift: "(\<lambda>n. name (i + (n + 1))) = (\<lambda>n. name (i + 1 + n))"
    by (rule ext) (simp add: ac_simps)
  show ?case
    unfolding crop_files_Cons shift
    by (simp add: Cons.IH [of "i + 1"] saveMatAsWebP_eq annotate_Cons annotate_Nil Let_def
             split: option.split)
qed

lemma first_failure_None:
  "first_failure env xs = None \<longleftrightarrow>
     (\<forall>j<length xs. save_error env (fst (xs ! j)) (snd (xs ! j)) = None)"
proof (induction xs)
  case Nil
  show ?case by simp
next
  case (Cons x xs)
  obtain path m where x: "x = (path, m)"
    by (cases x)
  show ?case
    unfolding x
    by (auto simp: Cons.IH nth_Cons' less_Suc_eq_0_disj split: option.splits)
qed

lemma first_failure_Some:
  "first_failure env xs = Some (k, e) \<longleftrightarrow>
     k < length xs
     \<and> (\<forall>j<k. save_error env (fst (xs ! j)) (snd (xs ! j)) = None)
     \<and> save_error env (fst (xs ! k)) (snd (xs ! k)) = Some e"
proof (induction xs arbitrary: k)
  case Nil
  show ?case by simp
next
  case (Cons x xs)
  obtain path m where x: "x = (path, m)"
    by (cases x)
  show ?case
  proof (cases k)
    case 0
    then show ?thesis
      unfolding x by (auto split: option.splits)
  next
    case (Suc k')
    then show ?thesis
      unfolding x
      by (auto simp: Cons.IH less_Suc_eq_0_disj split: option.splits)
  qed
qed

lemma length_crop_files: "length (crop_files name img faces) = length faces"
  by (simp add: crop_files_def)

lemma nth_crop_files:
  "k < length faces \<Longrightarrow>
   crop_files name img faces ! k = (name (1 + int k), crop_of img faces k)"
  by (simp add: crop_files_def)

lemma take_crop_files:
  "k \<le> length faces \<Longrightarrow>
   take k (crop_files name img faces) =
     map (\<lambda>j. (name (1 + int j), crop_of img faces j)) [0..<k]"
  by (simp add: crop_files_def take_map)

lemma detectFace_outcome:
  "detectFace env imagePath outputImagePath outputDir maxWidth maxHeight w =
     (let out = detect_outcome env (face_path env outputDir (detectFace_baseFilename imagePath))
                  imagePath outputImagePath maxWidth maxHeight
      in (w\<lparr>files := files w @ fst out\<rparr>, snd out))"
  by (simp add: detectFace_def detect_outcome_def run_outcome_def working_raster_def
        detectFace_loop_eq save_faces_run saveMatAsWebP_eq Let_def
        split: option.split)

lemma detectFace_single_outcome:
  "detectFace_single env imagePath outputImagePath maxWidth maxHeight w =
     (let out = detect_outcome env face_path_single imagePath outputImagePath maxWidth maxHeight
      in (w\<lparr>files := files w @ fst out\<rparr>, snd out))"
  by (simp add: detectFace_single_def detect_outcome_def run_outcome_def working_raster_def
        detectFace_single_loop_eq save_faces_run saveMatAsWebP_eq Let_def
        split: option.split)

section \<open>The rectangle drawn and the rectangle cropped\<close>

lemma Cols_Rectangle_draw: "Cols (Rectangle_draw img r) = Cols img"
  by (simp add: Cols_def Rectangle_draw_def)

lemma Rows_Rectangle_draw: "Rows (Rectangle_draw img r) = Rows img"
  by (simp add: Rows_def Rectangle_draw_def)

lemma cropRect_Rectangle_draw: "cropRect (Rectangle_draw img r) face = cropRect img face"
  by (simp add: cropRect_def Cols_Rectangle_draw Rows_Rectangle_draw)

text \<open>
  Claim C6. The rectangle drawn for a detection and the rectangle cropped for it come
  from the same formula over the same raster sides, and are equal: the two formulas
  agree on every raster and detection; the raster that \<open>cropAndSaveFace\<close> receives is the
  one just drawn on, whose sides are those of the raster the outline was computed from;
  so in each turn of the loop of either driver the view saved is the view inside the very
  rectangle whose outline was drawn in that turn.
\<close>

theorem C6_drawn_rectangle_is_cropped_rectangle:
  "expandedRect resizedImg face = cropRect resizedImg face
   \<and> cropRect (Rectangle_draw resizedImg (expandedRect resizedImg face)) face =
       expandedRect resizedImg face
   \<and> detectFace_loop env outputDir base i (face # faces) resizedImg w =
       (let drawn = Rectangle_draw resizedImg (expandedRect resizedImg face)
        in case saveMatAsWebP env (Region drawn (expandedRect resizedImg face))
                  (filepath_Join env outputDir (base @ ''_face_'' @ Itoa (i + 1) @ ''.webp'')) w of
             (w', Some err) \<Rightarrow> (drawn, w', Some (Err_save_face err))
           | (w', None) \<Rightarrow> detectFace_loop env outputDir base (i + 1) faces drawn w')
   \<and> detectFace_single_loop env outputImagePath i (face # faces) resizedImg w =
       (let drawn = Rectangle_draw resizedImg (expandedRect resizedImg face)
        in case saveMatAsWebP env (Region drawn (expandedRect resizedImg face))
                  (''face_'' @ Itoa (i + 1) @ ''.webp'') w of
             (w', Some err) \<Rightarrow> (drawn, w', Some (Err_save_face err))
           | (w', None) \<Rightarrow> detectFace_single_loop env outputImagePath (i + 1) faces drawn w')"
  by (simp add: expandedRect_cropRect cropRect_Rectangle_draw cropAndSaveFace_def
        cropAndSaveFace_single_def Let_def)

theorem C6_drawn_rectangle_is_cropped_rectangle_witness:
  "expandedRect demo_raster demo_face = cropRect demo_raster demo_face
   \<and> cropRect (Rectangle_draw demo_raster (expandedRect demo_raster demo_face)) demo_face =
       expandedRect demo_raster demo_face"
proof (rule conjI)
  show "expandedRect demo_raster demo_face = cropRect demo_raster demo_face"
    by (rule C6_drawn_rectangle_is_cropped_rectangle
          [of demo_raster demo_face, THEN conjunct1])
  show "cropRect (Rectangle_draw demo_raster (expandedRect demo_raster demo_face)) demo_face =
          expandedRect demo_raster demo_face"
    by (rule C6_drawn_rectangle_is_cropped_rectangle
          [of demo_raster demo_face, THEN conjunct2, THEN conjunct1])
qed

section \<open>Detections without extent\<close>

lemma Region_Empty: "Dx r = 0 \<or> Dy r = 0 \<Longrightarrow> Empty (Region img r)"
  by (auto simp: Empty_def Region_def)

lemma detectFace_loop_step:
  "detectFace_loop env outputDir base i (face # faces) img w =
     (case save_error env
             (filepath_Join env outputDir (base @ ''_face_'' @ Itoa (i + 1) @ ''.webp''))
             (Region (Rectangle_draw img (cropRect img face)) (cropRect img face)) of
        None \<Rightarrow>
          detectFace_loop env outputDir base (i + 1) faces
            (Rectangle_draw img (cropRect img face))
            (w\<lparr>files := files w
                  @ [(filepath_Join env outputDir (base @ ''_face_'' @ Itoa (i + 1) @ ''.webp''),
                      Region (Rectangle_draw img (cropRect img face)) (cropRect img face))]\<rparr>)
      | Some err \<Rightarrow> (Rectangle_draw img (cropRect img face), w, Some (Err_save_face err)))"
  by (simp add: cropAndSaveFace_def Let_def expandedRect_cropRect cropRect_Rectangle_draw
        saveMatAsWebP_eq split: option.split)

lemma detectFace_single_loop_step:
  "detectFace_single_loop env outputImagePath i (face # faces) img w =
     (case save_error env (''face_'' @ Itoa (i + 1) @ ''.webp'')
             (Region (Rectangle_draw img (cropRect img face)) (cropRect img face)) of
        None \<Rightarrow>
          detectFace_single_loop env outputImagePath (i + 1) faces
            (Rectangle_draw img (cropRect img face))
            (w\<lparr>files := files w
                  @ [(''face_'' @ Itoa (i + 1) @ ''.webp'',
                      Region (Rectangle_draw img (cropRect img face)) (cropRect img face))]\<rparr>)
      | Some err \<Rightarrow> (Rectangle_draw img (cropRect img face), w, Some (Err_save_face err)))"
  by (simp add: cropAndSaveFace_single_def Let_def expandedRect_cropRect
        cropRect_Rectangle_draw saveMatAsWebP_eq split: option.split)

text \<open>
  Claim C4, amended. For a detected rectangle \<open>r\<close> inside the raster with \<open>w = 0\<close> or
  \<open>h = 0\<close>, the expansion \<open>e\<close>, drawn and cropped, pads nothing on an axis on which \<open>r\<close>
  has no extent: with \<open>w = 0\<close> it keeps \<open>left\<close> and \<open>right\<close>, with \<open>h = 0\<close> it keeps \<open>top\<close>
  and \<open>bottom\<close>, while the other axis is expanded and clamped as for any rectangle
  (\<open>top' = max 0 (top - h div 2)\<close>, \<open>bottom' = min H (bottom + h)\<close>;
  \<open>left' = max 0 (left - w div 2)\<close>, \<open>right' = min W (right + w div 2)\<close>); with \<open>w = 0\<close>
  and \<open>h = 0\<close> it is \<open>r\<close> itself. Such a detection is not rejected: in the loop of either
  driver its outline is drawn and its crop, a view without pixels, is handed to the
  saving like any other; when the save succeeds the file is written and the loop goes on
  to the next detection, and when the library refuses it the loop returns that error.
\<close>

theorem C4_degenerate_amended:
  assumes "0 \<le> Pt_X (Rect_Min r)" and "Pt_X (Rect_Min r) \<le> Pt_X (Rect_Max r)"
    and "Pt_X (Rect_Max r) \<le> Cols img"
    and "0 \<le> Pt_Y (Rect_Min r)" and "Pt_Y (Rect_Min r) \<le> Pt_Y (Rect_Max r)"
    and "Pt_Y (Rect_Max r) \<le> Rows img"
    and "e = cropRect img r"
    and "drawn = Rectangle_draw img e"
    and "Dx r = 0 \<or> Dy r = 0"
  shows "expandedRect img r = e
       \<and> (Dx r = 0 \<longrightarrow>
            Pt_X (Rect_Min e) = Pt_X (Rect_Min r) \<and> Pt_X (Rect_Max e) = Pt_X (Rect_Max r)
          \<and> Pt_Y (Rect_Min e) = max 0 (Pt_Y (Rect_Min r) - Dy r div 2)
          \<and> Pt_Y (Rect_Max e) = min (Rows img) (Pt_Y (Rect_Max r) + Dy r))
       \<and> (Dy r = 0 \<longrightarrow>
            Pt_Y (Rect_Min e) = Pt_Y (Rect_Min r) \<and> Pt_Y (Rect_Max e) = Pt_Y (Rect_Max r)
          \<and> Pt_X (Rect_Min e) = max 0 (Pt_X (Rect_Min r) - Dx r div 2)
          \<and> Pt_X (Rect_Max e) = min (Cols img) (Pt_X (Rect_Max r) + Dx r div 2))
       \<and> (Dx r = 0 \<and> Dy r = 0 \<longrightarrow> e = r)
       \<and> Empty (Region drawn e)
       \<and> detectFace_loop env outputDir base i (r # faces) img w =
           (case save_error env
                   (filepath_Join env outputDir (base @ ''_face_'' @ Itoa (i + 1) @ ''.webp''))
                   (Region drawn e) of
              None \<Rightarrow>
                detectFace_loop env outputDir base (i + 1) faces drawn
                  (w\<lparr>files := files w
                        @ [(filepath_Join env outputDir
                              (base @ ''_face_'' @ Itoa (i + 1) @ ''.webp''),
                            Region drawn e)]\<rparr>)
            | Some err \<Rightarrow> (drawn, w, Some (Err_save_face err)))
       \<and> detectFace_single_loop env outputImagePath i (r # faces) img w =
           (case save_error env (''face_'' @ Itoa (i + 1) @ ''.webp'') (Region drawn e) of
              None \<Rightarrow>
                detectFace_single_loop env outputImagePath (i + 1) faces drawn
                  (w\<lparr>files := files w
                        @ [(''face_'' @ Itoa (i + 1) @ ''.webp'', Region drawn e)]\<rparr>)
            | Some err \<Rightarrow> (drawn, w, Some (Err_save_face err)))"
proof -
  have e: "e = \<lparr>Rect_Min = \<lparr>Pt_X = max 0 (Pt_X (Rect_Min r) - Dx r div 2),
                            Pt_Y = max 0 (Pt_Y (Rect_Min r) - Dy r div 2)\<rparr>,
                Rect_Max = \<lparr>Pt_X = min (Cols img) (Pt_X (Rect_Max r) + Dx r div 2),
                            Pt_Y = min (Rows img) (Pt_Y (Rect_Max r) + Dy r)\<rparr>\<rparr>"
    unfolding assms(7) Dx_def Dy_def by (rule cropRect_inside [OF assms(1-6)])
  have ex: "expandedRect img r = e"
    by (simp add: assms(7) expandedRect_cropRect)
  have x: "Pt_X (Rect_Min e) = Pt_X (Rect_Min r) \<and> Pt_X (Rect_Max e) = Pt_X (Rect_Max r)
         \<and> Pt_Y (Rect_Min e) = max 0 (Pt_Y (Rect_Min r) - Dy r div 2)
         \<and> Pt_Y (Rect_Max e) = min (Rows img) (Pt_Y (Rect_Max r) + Dy r)" if "Dx r = 0"
    using that assms(1,3) by (simp add: e)
  have y: "Pt_Y (Rect_Min e) = Pt_Y (Rect_Min r) \<and> Pt_Y (Rect_Max e) = Pt_Y (Rect_Max r)
         \<and> Pt_X (Rect_Min e) = max 0 (Pt_X (Rect_Min r) - Dx r div 2)
         \<and> Pt_X (Rect_Max e) = min (Cols img) (Pt_X (Rect_Max r) + Dx r div 2)" if "Dy r = 0"
    using that assms(4,6) by (simp add: e)
  have xy: "e = r" if "Dx r = 0" and "Dy r = 0"
  proof -
    have "Rect_Min e = Rect_Min r" and "Rect_Max e = Rect_Max r"
      using x [OF that(1)] y [OF that(2)] by (simp_all add: Point.equality)
    then show ?thesis
      by (simp add: Rectangle.equality)
  qed
  have "Dx e = 0 \<or> Dy e = 0"
  proof (rule disjE [OF assms(9)])
    assume "Dx r = 0"
    from x [OF this] have "Dx e = Dx r"
      by (simp add: Dx_def)
    with \<open>Dx r = 0\<close> show ?thesis
      by simp
  next
    assume "Dy r = 0"
    from y [OF this] have "Dy e = Dy r"
      by (simp add: Dy_def)
    with \<open>Dy r = 0\<close> show ?thesis
      by simp
  qed
  then have em: "Empty (Region drawn e)"
    by (rule Region_Empty)
  note b = detectFace_loop_step [of env outputDir base i r faces img w, folded assms(7),
             folded assms(8)]
  note s = detectFace_single_loop_step [of env outputImagePath i r faces img w,
             folded assms(7), folded assms(8)]
  show ?thesis
    using ex x y xy em b s by blast
qed

theorem C4_degenerate_amended_witness:
  "0 \<le> Pt_X (Rect_Min point_face) \<and> Pt_X (Rect_Min point_face) \<le> Pt_X (Rect_Max point_face)
   \<and> Pt_X (Rect_Max point_face) \<le> Cols demo_raster
   \<and> 0 \<le> Pt_Y (Rect_Min point_face) \<and> Pt_Y (Rect_Min point_face) \<le> Pt_Y (Rect_Max point_face)
   \<and> Pt_Y (Rect_Max point_face) \<le> Rows demo_raster
   \<and> Dx point_face = 0 \<and> Dy point_face = 0
   \<and> expandedRect demo_raster point_face = cropRect demo_raster point_face
   \<and> cropRect demo_raster point_face = point_face
   \<and> Empty (Region (Rectangle_draw demo_raster (cropRect demo_raster point_face))
               (cropRect demo_raster point_face))"
proof -
  have h: "0 \<le> Pt_X (Rect_Min point_face)" "Pt_X (Rect_Min point_face) \<le> Pt_X (Rect_Max point_face)"
    "Pt_X (Rect_Max point_face) \<le> Cols demo_raster"
    "0 \<le> Pt_Y (Rect_Min point_face)" "Pt_Y (Rect_Min point_face) \<le> Pt_Y (Rect_Max point_face)"
    "Pt_Y (Rect_Max point_face) \<le> Rows demo_raster"
    by (simp_all add: point_face_def demo_raster_def Cols_def Rows_def)
  have z: "Dx point_face = 0" "Dy point_face = 0"
    by (simp_all add: point_face_def Dx_def Dy_def)
  note t = C4_degenerate_amended [OF h refl refl disjI1 [OF z(1)]]
  have "expandedRect demo_raster point_face = cropRect demo_raster point_face"
    by (rule t [THEN conjunct1])
  moreover have "cropRect demo_raster point_face = point_face"
    using t [THEN conjunct2, THEN conjunct2, THEN conjunct2, THEN conjunct1] z by blast
  moreover have "Empty (Region (Rectangle_draw demo_raster (cropRect demo_raster point_face))
               (cropRect demo_raster point_face))"
    by (rule t [THEN conjunct2, THEN conjunct2, THEN conjunct2, THEN conjunct2, THEN conjunct1])
  ultimately show ?thesis
    using h z by blast
qed

lemma thin_face_example:
  "cropRect demo_raster thin_face =
     \<lparr>Rect_Min = \<lparr>Pt_X = 10, Pt_Y = 0\<rparr>, Rect_Max = \<lparr>Pt_X = 10, Pt_Y = 50\<rparr>\<rparr>
   \<and> Empty (Region (Rectangle_draw demo_raster (cropRect demo_raster thin_face))
               (cropRect demo_raster thin_face))
   \<and> save_error demo_env_strict ''face_1.webp''
         (Region (Rectangle_draw demo_raster (cropRect demo_raster thin_face))
            (cropRect demo_raster thin_face))
       = Some (Err_encode ''empty image'')
   \<and> detectFace_single_loop demo_env_strict ''output.webp'' 0 [thin_face] demo_raster no_files =
       (Rectangle_draw demo_raster (cropRect demo_raster thin_face), no_files,
        Some (Err_save_face (Err_encode ''empty image'')))
   \<and> map fst (files (fst (snd (detectFace_single_loop demo_env ''output.webp'' 0 [thin_face]
                                   demo_raster no_files)))) = [''face_1.webp'']"
  by code_simp

section \<open>No detection\<close>

text \<open>
  Claim C8. When the cascade file has loaded, the image has been read and the classifier
  returns no detection, \<open>detectFace\<close> of either driver returns \<open>false\<close> without an error and
  leaves the world as it was: no crop and no annotated output is written. The
  single-image driver then prints the record with \<open>"has_face": false\<close>, returns no error,
  and its process ends with status 0, nothing written to the error stream.
\<close>

theorem C8_no_detection_no_output:
  assumes "classifier_Load env ''haarcascade_frontalface_default.xml''"
    and "\<not> Empty (gocv_IMRead env imagePath)"
    and "classifier_Detect env
           (CvtColor (Resize (gocv_IMRead env imagePath)
                        \<lparr>Pt_X = int maxWidth, Pt_Y = int maxHeight\<rparr>)) = []"
  shows "detectFace env imagePath outputImagePath outputDir maxWidth maxHeight w = (w, Inr False)
       \<and> detectFace_single env imagePath outputImagePath maxWidth maxHeight w = (w, Inr False)
       \<and> processImage env imagePath outputImagePath maxWidth maxHeight w =
           (w\<lparr>stdout := stdout w @
                [''Face detection log:'' @ nl
                   @ ''{'' @ nl
                   @ ''  '' @ dq @ ''has_face'' @ dq @ '': false,'' @ nl
                   @ ''  '' @ dq @ ''input_path'' @ dq @ '': '' @ json_string env imagePath
                   @ '','' @ nl
                   @ ''  '' @ dq @ ''output_path'' @ dq @ '': ''
                   @ json_string env outputImagePath @ nl
                   @ ''}'' @ nl,
                 ''Image successfully processed and saved to: '' @ outputImagePath @ nl]\<rparr>,
            None)
       \<and> (imagePath = ''teest.jpg'' \<and> maxWidth = 1024 \<and> maxHeight = 1024 \<longrightarrow>
            snd (main_single env w) = 0
          \<and> files (fst (main_single env w)) = files w
          \<and> stderr (fst (main_single env w)) = stderr w)"
proof -
  have b: "detectFace env imagePath outputImagePath outputDir maxWidth maxHeight w = (w, Inr False)"
    using assms by (simp add: detectFace_def)
  have s: "detectFace_single env imagePath op maxWidth maxHeight w = (w, Inr False)" for op
    using assms by (simp add: detectFace_single_def)
  have p: "processImage env imagePath op maxWidth maxHeight w =
           (w\<lparr>stdout := stdout w @
                [''Face detection log:'' @ nl
                   @ ''{'' @ nl
                   @ ''  '' @ dq @ ''has_face'' @ dq @ '': false,'' @ nl
                   @ ''  '' @ dq @ ''input_path'' @ dq @ '': '' @ json_string env imagePath
                   @ '','' @ nl
                   @ ''  '' @ dq @ ''output_path'' @ dq @ '': ''
                   @ json_string env op @ nl
                   @ ''}'' @ nl,
                 ''Image successfully processed and saved to: '' @ op @ nl]\<rparr>,
            None)" for op
    by (simp add: processImage_def s Printf_def MarshalIndent_log_def)
  have m: "snd (main_single env w) = 0 \<and> files (fst (main_single env w)) = files w
         \<and> stderr (fst (main_single env w)) = stderr w"
    if "imagePath = ''teest.jpg''" and "maxWidth = 1024" and "maxHeight = 1024"
    using p [of "''output.webp''"] unfolding that by (simp add: main_single_def)
  show ?thesis
    using b s p m by blast
qed

theorem C8_no_detection_no_output_witness:
  "classifier_Load demo_env_no_faces ''haarcascade_frontalface_default.xml''
   \<and> \<not> Empty (gocv_IMRead demo_env_no_faces ''teest.jpg'')
   \<and> classifier_Detect demo_env_no_faces
         (CvtColor (Resize (gocv_IMRead demo_env_no_faces ''teest.jpg'')
                      \<lparr>Pt_X = int 1024, Pt_Y = int 1024\<rparr>)) = []
   \<and> detectFace demo_env_no_faces ''teest.jpg'' ''output.webp'' ''output_images'' 1024 1024
         no_files = (no_files, Inr False)
   \<and> detectFace_single demo_env_no_faces ''teest.jpg'' ''output.webp'' 1024 1024 no_files =
         (no_files, Inr False)
   \<and> snd (main_single demo_env_no_faces no_files) = 0
   \<and> files (fst (main_single demo_env_no_faces no_files)) = files no_files
   \<and> stderr (fst (main_single demo_env_no_faces no_files)) = stderr no_files"
proof -
  have h: "classifier_Load demo_env_no_faces ''haarcascade_frontalface_default.xml''"
    "\<not> Empty (gocv_IMRead demo_env_no_faces ''teest.jpg'')"
    "classifier_Detect demo_env_no_faces
       (CvtColor (Resize (gocv_IMRead demo_env_no_faces ''teest.jpg'')
                    \<lparr>Pt_X = int 1024, Pt_Y = int 1024\<rparr>)) = []"
    by (simp_all add: demo_env_no_faces_def demo_env_def Empty_def)
  from C8_no_detection_no_output
         [OF h, of "''output.webp''" "''output_images''" no_files] h
  show ?thesis
    by simp
qed

section \<open>The files of the crops\<close>

lemma save_error_None_iff:
  "save_error env path m = None \<longleftrightarrow>
     mat_ToImage env m = None \<and> webp_Encode env m = None \<and> ioutil_WriteFile env path m = None"
  by (simp add: save_error_def saveMatAsWebP_def saveAsWebP_def split: option.split)

lemma expandedRect_Rectangle_draw: "expandedRect (Rectangle_draw img r) = expandedRect img"
  by (rule ext) (simp add: expandedRect_cropRect cropRect_Rectangle_draw)

lemma mat_data_Rectangle_draw: "mat_data (Rectangle_draw img r) = Outline (mat_data img) r"
  by (simp add: Rectangle_draw_def)

lemma expandedRect_annotate: "expandedRect (annotate img faces) face = expandedRect img face"
  by (induction faces arbitrary: img)
     (simp_all add: annotate_Nil annotate_Cons expandedRect_Rectangle_draw)

lemma crop_of_eq:
  "crop_of img faces k =
     Region (annotate img (take (Suc k) faces)) (expandedRect img (faces ! k))"
  by (simp add: crop_of_def Let_def expandedRect_annotate
        expandedRect_cropRect [symmetric])

lemma outlines_annotate:
  "outlines (mat_data (annotate img faces)) =
     outlines (mat_data img) @ map (expandedRect img) faces"
  by (induction faces arbitrary: img)
     (simp_all add: annotate_Nil annotate_Cons expandedRect_Rectangle_draw
        mat_data_Rectangle_draw)

lemma first_failure_all_saved:
  "\<forall>path m. save_error env path m = None \<Longrightarrow> first_failure env xs = None"
  by (simp add: first_failure_None)

lemma run_outcome_nth:
  "k < length crops \<Longrightarrow> k < length (fst (run_outcome env crops path annotated)) \<Longrightarrow>
   fst (run_outcome env crops path annotated) ! k = crops ! k"
  by (auto simp: run_outcome_def nth_append split: option.splits)

text \<open>
  Claim C3, as the specification states it, fails for the single-image driver: the crops
  of \<open>teest.jpg\<close> are named \<open>face_1.webp\<close> and \<open>face_2.webp\<close>, without the base name
  \<open>teest\<close> of the input.
\<close>

theorem C3_crop_names_counterexample:
  "snd (detectFace_single demo_env ''teest.jpg'' ''output.webp'' 1024 1024 no_files) = Inr True
   \<and> map fst (files (fst (detectFace_single demo_env ''teest.jpg'' ''output.webp'' 1024 1024
                             no_files)))
       = [''face_1.webp'', ''face_2.webp'', ''output.webp'']
   \<and> detectFace_baseFilename ''teest.jpg'' = ''teest''
   \<and> ''teest_face_1.webp''
       \<notin> set (map fst (files (fst (detectFace_single demo_env ''teest.jpg'' ''output.webp''
                                      1024 1024 no_files))))"
  by code_simp

lemma detect_outcome_all_saved:
  assumes "classifier_Load env ''haarcascade_frontalface_default.xml''"
    and "\<not> Empty (gocv_IMRead env imagePath)"
    and "img = Resize (gocv_IMRead env imagePath) \<lparr>Pt_X = int maxWidth, Pt_Y = int maxHeight\<rparr>"
    and "faces = classifier_Detect env (CvtColor img)"
    and "1 \<le> length faces"
    and "\<forall>k<length faces. save_error env (name (1 + int k)) (crop_of img faces k) = None"
    and "save_error env outputImagePath (annotate img faces) = None"
  shows "detect_outcome env name imagePath outputImagePath maxWidth maxHeight =
           (map (\<lambda>k. (name (1 + int k), crop_of img faces k)) [0..<length faces]
            @ [(outputImagePath, annotate img faces)],
            Inr True)"
proof -
  have ne: "classifier_Detect env (CvtColor (working_raster env imagePath maxWidth maxHeight)) \<noteq> []"
    using assms(3-5) by (auto simp: working_raster_def)
  have "first_failure env (crop_files name img faces) = None"
    unfolding first_failure_None length_crop_files
    using assms(6) by (simp add: nth_crop_files)
  then show ?thesis
    using assms(1,2,7) ne
    by (simp add: detect_outcome_def run_outcome_def Let_def assms(3,4) [symmetric]
          working_raster_def crop_files_def)
qed

text \<open>
  Claim C3, amended. When the classifier returns \<open>N \<ge> 1\<close> detections for an image and
  every write of the run succeeds (the save of each of the \<open>N\<close> crops under its name and
  the save of the annotated raster), \<open>detectFace\<close> writes exactly one file for each
  detection, in the classifier's order, numbered \<open>1..N\<close>, and then the annotated output.
  The batch driver names the crops \<open><baseFilename>_face_<index>.webp\<close> in the output
  directory; the single-image driver names them \<open>face_<index>.webp\<close>, without the base
  name.
\<close>

theorem C3_crop_files_amended:
  assumes "classifier_Load env ''haarcascade_frontalface_default.xml''"
    and "\<not> Empty (gocv_IMRead env imagePath)"
    and "img = Resize (gocv_IMRead env imagePath) \<lparr>Pt_X = int maxWidth, Pt_Y = int maxHeight\<rparr>"
    and "faces = classifier_Detect env (CvtColor img)"
    and "1 \<le> length faces"
  shows "((\<forall>k<length faces.
             save_error env
               (filepath_Join env outputDir
                  (detectFace_baseFilename imagePath @ ''_face_'' @ Itoa (1 + int k) @ ''.webp''))
               (crop_of img faces k) = None)
          \<and> save_error env outputImagePath (annotate img faces) = None
          \<longrightarrow> detectFace env imagePath outputImagePath outputDir maxWidth maxHeight w =
                (w\<lparr>files := files w
                      @ map (\<lambda>k. (filepath_Join env outputDir
                                     (detectFace_baseFilename imagePath @ ''_face_''
                                        @ Itoa (1 + int k) @ ''.webp''),
                                   crop_of img faces k))
                          [0..<length faces]
                      @ [(outputImagePath, annotate img faces)]\<rparr>,
                 Inr True))
       \<and> ((\<forall>k<length faces.
               save_error env (''face_'' @ Itoa (1 + int k) @ ''.webp'') (crop_of img faces k)
                 = None)
          \<and> save_error env outputImagePath (annotate img faces) = None
          \<longrightarrow> detectFace_single env imagePath outputImagePath maxWidth maxHeight w =
                (w\<lparr>files := files w
                      @ map (\<lambda>k. (''face_'' @ Itoa (1 + int k) @ ''.webp'',
                                   crop_of img faces k))
                          [0..<length faces]
                      @ [(outputImagePath, annotate img faces)]\<rparr>,
                 Inr True))"
proof (intro conjI impI)
  assume "(\<forall>k<length faces.
             save_error env
               (filepath_Join env outputDir
                  (detectFace_baseFilename imagePath @ ''_face_'' @ Itoa (1 + int k) @ ''.webp''))
               (crop_of img faces k) = None)
          \<and> save_error env outputImagePath (annotate img faces) = None"
  then have "\<forall>k<length faces.
               save_error env
                 (face_path env outputDir (detectFace_baseFilename imagePath) (1 + int k))
                 (crop_of img faces k) = None"
    and "save_error env outputImagePath (annotate img faces) = None"
    by (simp_all add: face_path_def)
  note d = detect_outcome_all_saved [OF assms this]
  show "detectFace env imagePath outputImagePath outputDir maxWidth maxHeight w =
          (w\<lparr>files := files w
                @ map (\<lambda>k. (filepath_Join env outputDir
                               (detectFace_baseFilename imagePath @ ''_face_''
                                  @ Itoa (1 + int k) @ ''.webp''),
                             crop_of img faces k))
                    [0..<length faces]
                @ [(outputImagePath, annotate img faces)]\<rparr>,
           Inr True)"
    unfolding detectFace_outcome d by (simp add: face_path_def)
next
  assume "(\<forall>k<length faces.
               save_error env (''face_'' @ Itoa (1 + int k) @ ''.webp'') (crop_of img faces k)
                 = None)
          \<and> save_error env outputImagePath (annotate img faces) = None"
  then have "\<forall>k<length faces.
               save_error env (face_path_single (1 + int k)) (crop_of img faces k) = None"
    and "save_error env outputImagePath (annotate img faces) = None"
    by (simp_all add: face_path_single_def)
  note d = detect_outcome_all_saved [OF assms this]
  show "detectFace_single env imagePath outputImagePath maxWidth maxHeight w =
          (w\<lparr>files := files w
                @ map (\<lambda>k. (''face_'' @ Itoa (1 + int k) @ ''.webp'', crop_of img faces k))
                    [0..<length faces]
                @ [(outputImagePath, annotate img faces)]\<rparr>,
           Inr True)"
    unfolding detectFace_single_outcome d by (simp add: face_path_single_def)
qed

lemma strict_faces: "(classifier_Detect demo_env_strict (CvtColor (Resize (gocv_IMRead demo_env_strict ''teest.jpg'') \<lparr>Pt_X = int 1024, Pt_Y = int 1024\<rparr>))) = [demo_face, corner_face]"
  by code_simp

lemma strict_batch_crop_1:
  "save_error demo_env_strict
     (filepath_Join demo_env_strict ''output_images''
        (detectFace_baseFilename ''teest.jpg'' @ ''_face_'' @ Itoa (1 + int 0) @ ''.webp''))
     (crop_of (Resize (gocv_IMRead demo_env_strict ''teest.jpg'') \<lparr>Pt_X = int 1024, Pt_Y = int 1024\<rparr>) (classifier_Detect demo_env_strict (CvtColor (Resize (gocv_IMRead demo_env_strict ''teest.jpg'') \<lparr>Pt_X = int 1024, Pt_Y = int 1024\<rparr>))) 0) = None"
  by code_simp

lemma strict_batch_crop_2:
  "save_error demo_env_strict
     (filepath_Join demo_env_strict ''output_images''
        (detectFace_baseFilename ''teest.jpg'' @ ''_face_'' @ Itoa (1 + int 1) @ ''.webp''))
     (crop_of (Resize (gocv_IMRead demo_env_strict ''teest.jpg'') \<lparr>Pt_X = int 1024, Pt_Y = int 1024\<rparr>) (classifier_Detect demo_env_strict (CvtColor (Resize (gocv_IMRead demo_env_strict ''teest.jpg'') \<lparr>Pt_X = int 1024, Pt_Y = int 1024\<rparr>))) 1) = None"
  by code_simp

lemma strict_single_crop_1:
  "save_error demo_env_strict (''face_'' @ Itoa (1 + int 0) @ ''.webp'') (crop_of (Resize (gocv_IMRead demo_env_strict ''teest.jpg'') \<lparr>Pt_X = int 1024, Pt_Y = int 1024\<rparr>) (classifier_Detect demo_env_strict (CvtColor (Resize (gocv_IMRead demo_env_strict ''teest.jpg'') \<lparr>Pt_X = int 1024, Pt_Y = int 1024\<rparr>))) 0)
     = None"
  by code_simp

lemma strict_single_crop_2:
  "save_error demo_env_strict (''face_'' @ Itoa (1 + int 1) @ ''.webp'') (crop_of (Resize (gocv_IMRead demo_env_strict ''teest.jpg'') \<lparr>Pt_X = int 1024, Pt_Y = int 1024\<rparr>) (classifier_Detect demo_env_strict (CvtColor (Resize (gocv_IMRead demo_env_strict ''teest.jpg'') \<lparr>Pt_X = int 1024, Pt_Y = int 1024\<rparr>))) 1)
     = None"
  by code_simp

lemma strict_annotated:
  "save_error demo_env_strict ''output.webp'' (annotate (Resize (gocv_IMRead demo_env_strict ''teest.jpg'') \<lparr>Pt_X = int 1024, Pt_Y = int 1024\<rparr>) (classifier_Detect demo_env_strict (CvtColor (Resize (gocv_IMRead demo_env_strict ''teest.jpg'') \<lparr>Pt_X = int 1024, Pt_Y = int 1024\<rparr>)))) = None"
  by code_simp

lemma strict_refuses_empty:
  "save_error demo_env_strict ''face_1.webp'' (Region demo_raster point_face)
     = Some (Err_encode ''empty image'')"
  by code_simp

lemma strict_batch_names:
  "map (\<lambda>k. filepath_Join demo_env_strict ''output_images''
               (detectFace_baseFilename ''teest.jpg'' @ ''_face_'' @ Itoa (1 + int k) @ ''.webp''))
     [0..<2]
   = [''output_images/teest_face_1.webp'', ''output_images/teest_face_2.webp'']"
  by code_simp

lemma strict_single_names:
  "map (\<lambda>k. ''face_'' @ Itoa (1 + int k) @ ''.webp'') [0..<2]
   = [''face_1.webp'', ''face_2.webp'']"
  by code_simp

theorem C3_crop_files_amended_witness:
  "classifier_Load demo_env_strict ''haarcascade_frontalface_default.xml''
   \<and> \<not> Empty (gocv_IMRead demo_env_strict ''teest.jpg'')
   \<and> 1 \<le> length (classifier_Detect demo_env_strict (CvtColor (Resize (gocv_IMRead demo_env_strict ''teest.jpg'') \<lparr>Pt_X = int 1024, Pt_Y = int 1024\<rparr>)))
   \<and> save_error demo_env_strict
         (filepath_Join demo_env_strict ''output_images''
            (detectFace_baseFilename ''teest.jpg'' @ ''_face_'' @ Itoa (1 + int 0) @ ''.webp''))
         (crop_of (Resize (gocv_IMRead demo_env_strict ''teest.jpg'') \<lparr>Pt_X = int 1024, Pt_Y = int 1024\<rparr>) (classifier_Detect demo_env_strict (CvtColor (Resize (gocv_IMRead demo_env_strict ''teest.jpg'') \<lparr>Pt_X = int 1024, Pt_Y = int 1024\<rparr>))) 0) = None
   \<and> save_error demo_env_strict
         (filepath_Join demo_env_strict ''output_images''
            (detectFace_baseFilename ''teest.jpg'' @ ''_face_'' @ Itoa (1 + int 1) @ ''.webp''))
         (crop_of (Resize (gocv_IMRead demo_env_strict ''teest.jpg'') \<lparr>Pt_X = int 1024, Pt_Y = int 1024\<rparr>) (classifier_Detect demo_env_strict (CvtColor (Resize (gocv_IMRead demo_env_strict ''teest.jpg'') \<lparr>Pt_X = int 1024, Pt_Y = int 1024\<rparr>))) 1) = None
   \<and> save_error demo_env_strict (''face_'' @ Itoa (1 + int 0) @ ''.webp'')
         (crop_of (Resize (gocv_IMRead demo_env_strict ''teest.jpg'') \<lparr>Pt_X = int 1024, Pt_Y = int 1024\<rparr>) (classifier_Detect demo_env_strict (CvtColor (Resize (gocv_IMRead demo_env_strict ''teest.jpg'') \<lparr>Pt_X = int 1024, Pt_Y = int 1024\<rparr>))) 0) = None
   \<and> save_error demo_env_strict (''face_'' @ Itoa (1 + int 1) @ ''.webp'')
         (crop_of (Resize (gocv_IMRead demo_env_strict ''teest.jpg'') \<lparr>Pt_X = int 1024, Pt_Y = int 1024\<rparr>) (classifier_Detect demo_env_strict (CvtColor (Resize (gocv_IMRead demo_env_strict ''teest.jpg'') \<lparr>Pt_X = int 1024, Pt_Y = int 1024\<rparr>))) 1) = None
   \<and> save_error demo_env_strict ''output.webp'' (annotate (Resize (gocv_IMRead demo_env_strict ''teest.jpg'') \<lparr>Pt_X = int 1024, Pt_Y = int 1024\<rparr>) (classifier_Detect demo_env_strict (CvtColor (Resize (gocv_IMRead demo_env_strict ''teest.jpg'') \<lparr>Pt_X = int 1024, Pt_Y = int 1024\<rparr>)))) = None
   \<and> snd (detectFace demo_env_strict ''teest.jpg'' ''output.webp'' ''output_images'' 1024 1024
             no_files) = Inr True
   \<and> map fst (files (fst (detectFace demo_env_strict ''teest.jpg'' ''output.webp''
                             ''output_images'' 1024 1024 no_files)))
       = [''output_images/teest_face_1.webp'', ''output_images/teest_face_2.webp'',
          ''output.webp'']
   \<and> snd (detectFace_single demo_env_strict ''teest.jpg'' ''output.webp'' 1024 1024 no_files)
       = Inr True
   \<and> map fst (files (fst (detectFace_single demo_env_strict ''teest.jpg'' ''output.webp''
                             1024 1024 no_files)))
       = [''face_1.webp'', ''face_2.webp'', ''output.webp'']"
proof -
  have h: "classifier_Load demo_env_strict ''haarcascade_frontalface_default.xml''"
    "\<not> Empty (gocv_IMRead demo_env_strict ''teest.jpg'')"
    by (simp_all add: demo_env_strict_def demo_env_def Empty_def)
  have n: "length (classifier_Detect demo_env_strict (CvtColor (Resize (gocv_IMRead demo_env_strict ''teest.jpg'') \<lparr>Pt_X = int 1024, Pt_Y = int 1024\<rparr>))) = 2"
    unfolding strict_faces by simp
  have l: "1 \<le> length (classifier_Detect demo_env_strict (CvtColor (Resize (gocv_IMRead demo_env_strict ''teest.jpg'') \<lparr>Pt_X = int 1024, Pt_Y = int 1024\<rparr>)))"
    unfolding n by simp
  have two: "k = 0 \<or> k = 1" if "k < 2" for k :: nat
    using that by auto
  have b: "\<forall>k<length (classifier_Detect demo_env_strict (CvtColor (Resize (gocv_IMRead demo_env_strict ''teest.jpg'') \<lparr>Pt_X = int 1024, Pt_Y = int 1024\<rparr>))).
         save_error demo_env_strict
           (filepath_Join demo_env_strict ''output_images''
              (detectFace_baseFilename ''teest.jpg'' @ ''_face_'' @ Itoa (1 + int k) @ ''.webp''))
           (crop_of (Resize (gocv_IMRead demo_env_strict ''teest.jpg'') \<lparr>Pt_X = int 1024, Pt_Y = int 1024\<rparr>) (classifier_Detect demo_env_strict (CvtColor (Resize (gocv_IMRead demo_env_strict ''teest.jpg'') \<lparr>Pt_X = int 1024, Pt_Y = int 1024\<rparr>))) k) = None"
    unfolding n using strict_batch_crop_1 strict_batch_crop_2 two by blast
  have s: "\<forall>k<length (classifier_Detect demo_env_strict (CvtColor (Resize (gocv_IMRead demo_env_strict ''teest.jpg'') \<lparr>Pt_X = int 1024, Pt_Y = int 1024\<rparr>))).
         save_error demo_env_strict (''face_'' @ Itoa (1 + int k) @ ''.webp'')
           (crop_of (Resize (gocv_IMRead demo_env_strict ''teest.jpg'') \<lparr>Pt_X = int 1024, Pt_Y = int 1024\<rparr>) (classifier_Detect demo_env_strict (CvtColor (Resize (gocv_IMRead demo_env_strict ''teest.jpg'') \<lparr>Pt_X = int 1024, Pt_Y = int 1024\<rparr>))) k) = None"
    unfolding n using strict_single_crop_1 strict_single_crop_2 two by blast
  note t = C3_crop_files_amended
             [where outputImagePath = "''output.webp''" and outputDir = "''output_images''"
                and w = no_files, OF h refl refl l]
  note tb = t [THEN conjunct1, rule_format, OF conjI [OF b strict_annotated]]
  note ts = t [THEN conjunct2, rule_format, OF conjI [OF s strict_annotated]]
  have "snd (detectFace demo_env_strict ''teest.jpg'' ''output.webp'' ''output_images'' 1024
               1024 no_files) = Inr True"
    unfolding tb by simp
  moreover have "map fst (files (fst (detectFace demo_env_strict ''teest.jpg'' ''output.webp''
                             ''output_images'' 1024 1024 no_files)))
       = [''output_images/teest_face_1.webp'', ''output_images/teest_face_2.webp'',
          ''output.webp'']"
    unfolding tb n using strict_batch_names
    by (simp add: no_files_def comp_def del: upt_Suc)
  moreover have "snd (detectFace_single demo_env_strict ''teest.jpg'' ''output.webp'' 1024 1024
                        no_files) = Inr True"
    unfolding ts by simp
  moreover have "map fst (files (fst (detectFace_single demo_env_strict ''teest.jpg''
                             ''output.webp'' 1024 1024 no_files)))
       = [''face_1.webp'', ''face_2.webp'', ''output.webp'']"
    unfolding ts n using strict_single_names
    by (simp add: no_files_def comp_def del: upt_Suc)
  ultimately show ?thesis
    using h l strict_batch_crop_1 strict_batch_crop_2 strict_single_crop_1
      strict_single_crop_2 strict_annotated
    by blast
qed

lemma batch_run_example:
  "main demo_env no_files =
     (\<lparr>files = files (fst (main demo_env no_files)),
       stdout = [''Processing file: input_images/broken.jpg'' @ nl,
                 ''Error processing file input_images/broken.jpg: error reading image'' @ nl,
                 ''Processing file: input_images/a.jpg'' @ nl],
       stderr = []\<rparr>, 0)
   \<and> map fst (files (fst (main demo_env no_files))) =
       [''output_images/a_face_1.webp'', ''output_images/a_face_2.webp'',
        ''output_images/output_a.jpg.webp'']"
  by code_simp

section \<open>A crop that cannot be saved\<close>

lemma detect_outcome_first_failure:
  assumes "classifier_Load env ''haarcascade_frontalface_default.xml''"
    and "\<not> Empty (gocv_IMRead env imagePath)"
    and "img = Resize (gocv_IMRead env imagePath) \<lparr>Pt_X = int maxWidth, Pt_Y = int maxHeight\<rparr>"
    and "faces = classifier_Detect env (CvtColor img)"
    and "k < length faces"
    and "\<forall>j<k. save_error env (name (1 + int j)) (crop_of img faces j) = None"
    and "save_error env (name (1 + int k)) (crop_of img faces k) = Some e"
  shows "detect_outcome env name imagePath outputImagePath maxWidth maxHeight =
           (map (\<lambda>j. (name (1 + int j), crop_of img faces j)) [0..<k], Inl (Err_save_face e))"
proof -
  have ne: "classifier_Detect env (CvtColor (working_raster env imagePath maxWidth maxHeight)) \<noteq> []"
    using assms(3-5) by (auto simp: working_raster_def)
  have "first_failure env (crop_files name img faces) = Some (k, e)"
    unfolding first_failure_Some length_crop_files
    using assms(5-7) by (simp add: nth_crop_files)
  then show ?thesis
    using assms(1,2,5) ne
    by (simp add: detect_outcome_def run_outcome_def Let_def assms(3,4) [symmetric]
          working_raster_def take_crop_files)
qed

text \<open>
  Claim C10. The output of one image is not atomic. When the crop of the detection at
  position \<open>k\<close> (from 0; the detection numbered \<open>k + 1\<close>) cannot be saved, those before it
  having been saved, \<open>detectFace\<close> of either driver returns the error at once: the files
  written are exactly the crops of the detections before it, neither its crop nor a later
  one nor the annotated output is written, and nothing written is removed.
\<close>

theorem C10_failed_crop_stops_the_image:
  assumes "classifier_Load env ''haarcascade_frontalface_default.xml''"
    and "\<not> Empty (gocv_IMRead env imagePath)"
    and "img = Resize (gocv_IMRead env imagePath) \<lparr>Pt_X = int maxWidth, Pt_Y = int maxHeight\<rparr>"
    and "faces = classifier_Detect env (CvtColor img)"
    and "k < length faces"
  shows "((\<forall>j<k. save_error env
                   (filepath_Join env outputDir
                      (detectFace_baseFilename imagePath @ ''_face_'' @ Itoa (1 + int j)
                         @ ''.webp''))
                   (crop_of img faces j) = None)
          \<and> save_error env
                (filepath_Join env outputDir
                   (detectFace_baseFilename imagePath @ ''_face_'' @ Itoa (1 + int k)
                      @ ''.webp''))
                (crop_of img faces k) = Some e
          \<longrightarrow> detectFace env imagePath outputImagePath outputDir maxWidth maxHeight w =
                (w\<lparr>files := files w
                      @ map (\<lambda>j. (filepath_Join env outputDir
                                     (detectFace_baseFilename imagePath @ ''_face_''
                                        @ Itoa (1 + int j) @ ''.webp''),
                                   crop_of img faces j))
                          [0..<k]\<rparr>,
                 Inl (Err_save_face e)))
       \<and> ((\<forall>j<k. save_error env (''face_'' @ Itoa (1 + int j) @ ''.webp'')
                     (crop_of img faces j) = None)
          \<and> save_error env (''face_'' @ Itoa (1 + int k) @ ''.webp'') (crop_of img faces k)
              = Some e
          \<longrightarrow> detectFace_single env imagePath outputImagePath maxWidth maxHeight w =
                (w\<lparr>files := files w
                      @ map (\<lambda>j. (''face_'' @ Itoa (1 + int j) @ ''.webp'',
                                   crop_of img faces j))
                          [0..<k]\<rparr>,
                 Inl (Err_save_face e)))"
proof (intro conjI impI)
  assume "(\<forall>j<k. save_error env
                   (filepath_Join env outputDir
                      (detectFace_baseFilename imagePath @ ''_face_'' @ Itoa (1 + int j)
                         @ ''.webp''))
                   (crop_of img faces j) = None)
          \<and> save_error env
                (filepath_Join env outputDir
                   (detectFace_baseFilename imagePath @ ''_face_'' @ Itoa (1 + int k)
                      @ ''.webp''))
                (crop_of img faces k) = Some e"
  then have "\<forall>j<k. save_error env
                      (face_path env outputDir (detectFace_baseFilename imagePath) (1 + int j))
                      (crop_of img faces j) = None"
    and "save_error env (face_path env outputDir (detectFace_baseFilename imagePath) (1 + int k))
           (crop_of img faces k) = Some e"
    by (simp_all add: face_path_def)
  note d = detect_outcome_first_failure [OF assms this]
  show "detectFace env imagePath outputImagePath outputDir maxWidth maxHeight w =
          (w\<lparr>files := files w
                @ map (\<lambda>j. (filepath_Join env outputDir
                               (detectFace_baseFilename imagePath @ ''_face_''
                                  @ Itoa (1 + int j) @ ''.webp''),
                             crop_of img faces j))
                    [0..<k]\<rparr>,
           Inl (Err_save_face e))"
    unfolding detectFace_outcome d by (simp add: face_path_def)
next
  assume "(\<forall>j<k. save_error env (''face_'' @ Itoa (1 + int j) @ ''.webp'')
                     (crop_of img faces j) = None)
          \<and> save_error env (''face_'' @ Itoa (1 + int k) @ ''.webp'') (crop_of img faces k)
              = Some e"
  then have "\<forall>j<k. save_error env (face_path_single (1 + int j)) (crop_of img faces j) = None"
    and "save_error env (face_path_single (1 + int k)) (crop_of img faces k) = Some e"
    by (simp_all add: face_path_single_def)
  note d = detect_outcome_first_failure [OF assms this]
  show "detectFace_single env imagePath outputImagePath maxWidth maxHeight w =
          (w\<lparr>files := files w
                @ map (\<lambda>j. (''face_'' @ Itoa (1 + int j) @ ''.webp'', crop_of img faces j))
                    [0..<k]\<rparr>,
           Inl (Err_save_face e))"
    unfolding detectFace_single_outcome d by (simp add: face_path_single_def)
qed

lemma Itoa_1: "Itoa 1 = ''1''"
  by code_simp

lemma Itoa_2: "Itoa 2 = ''2''"
  by code_simp

lemma baseFilename_teest: "detectFace_baseFilename ''teest.jpg'' = ''teest''"
  by code_simp

theorem C10_failed_crop_stops_the_image_witness:
  "classifier_Load demo_env_disk_full ''haarcascade_frontalface_default.xml''
   \<and> \<not> Empty (gocv_IMRead demo_env_disk_full ''teest.jpg'')
   \<and> detectFace demo_env_disk_full ''teest.jpg'' ''output.webp'' ''output_images'' 1024 1024
         no_files =
       (no_files\<lparr>files :=
          [(''output_images/teest_face_1.webp'',
            crop_of (Resize (gocv_IMRead demo_env_disk_full ''teest.jpg'')
                       \<lparr>Pt_X = int 1024, Pt_Y = int 1024\<rparr>)
              [demo_face, corner_face] 0)]\<rparr>,
        Inl (Err_save_face (Err_library ''disk full'')))
   \<and> detectFace_single demo_env_disk_full ''teest.jpg'' ''output.webp'' 1024 1024 no_files =
       (no_files\<lparr>files :=
          [(''face_1.webp'',
            crop_of (Resize (gocv_IMRead demo_env_disk_full ''teest.jpg'')
                       \<lparr>Pt_X = int 1024, Pt_Y = int 1024\<rparr>)
              [demo_face, corner_face] 0)]\<rparr>,
        Inl (Err_save_face (Err_library ''disk full'')))"
proof -
  define img where
    "img = Resize (gocv_IMRead demo_env_disk_full ''teest.jpg'')
             \<lparr>Pt_X = int 1024, Pt_Y = int 1024\<rparr>"
  have faces: "classifier_Detect demo_env_disk_full (CvtColor img) = [demo_face, corner_face]"
    by (simp add: demo_env_disk_full_def demo_env_def)
  have h: "classifier_Load demo_env_disk_full ''haarcascade_frontalface_default.xml''"
    "\<not> Empty (gocv_IMRead demo_env_disk_full ''teest.jpg'')"
    "[demo_face, corner_face] = classifier_Detect demo_env_disk_full (CvtColor img)"
    "1 < length [demo_face, corner_face]"
    by (simp_all add: demo_env_disk_full_def demo_env_def Empty_def)
  have b: "(\<forall>j<1. save_error demo_env_disk_full
                   (filepath_Join demo_env_disk_full ''output_images''
                      (detectFace_baseFilename ''teest.jpg'' @ ''_face_'' @ Itoa (1 + int j)
                         @ ''.webp''))
                   (crop_of img [demo_face, corner_face] j) = None)
          \<and> save_error demo_env_disk_full
                (filepath_Join demo_env_disk_full ''output_images''
                   (detectFace_baseFilename ''teest.jpg'' @ ''_face_'' @ Itoa (1 + int 1)
                      @ ''.webp''))
                (crop_of img [demo_face, corner_face] 1)
              = Some (Err_library ''disk full'')"
    by (simp add: save_error_def saveMatAsWebP_def saveAsWebP_def baseFilename_teest Itoa_1
          Itoa_2 demo_env_disk_full_def demo_env_def)
  have s: "(\<forall>j<1. save_error demo_env_disk_full (''face_'' @ Itoa (1 + int j) @ ''.webp'')
                     (crop_of img [demo_face, corner_face] j) = None)
          \<and> save_error demo_env_disk_full (''face_'' @ Itoa (1 + int 1) @ ''.webp'')
                (crop_of img [demo_face, corner_face] 1)
              = Some (Err_library ''disk full'')"
    by (simp add: save_error_def saveMatAsWebP_def saveAsWebP_def Itoa_1 Itoa_2
          demo_env_disk_full_def demo_env_def)
  note t = C10_failed_crop_stops_the_image
             [OF h(1,2) img_def h(3,4), of "''output_images''" "Err_library ''disk full''"
                "''output.webp''" no_files]
  have "detectFace demo_env_disk_full ''teest.jpg'' ''output.webp'' ''output_images'' 1024 1024
          no_files =
        (no_files\<lparr>files :=
           [(''output_images/teest_face_1.webp'', crop_of img [demo_face, corner_face] 0)]\<rparr>,
         Inl (Err_save_face (Err_library ''disk full'')))"
    using t [THEN conjunct1, rule_format, OF b]
    by (simp add: baseFilename_teest Itoa_1 demo_env_disk_full_def demo_env_def no_files_def)
  moreover have "detectFace_single demo_env_disk_full ''teest.jpg'' ''output.webp'' 1024 1024
          no_files =
        (no_files\<lparr>files := [(''face_1.webp'', crop_of img [demo_face, corner_face] 0)]\<rparr>,
         Inl (Err_save_face (Err_library ''disk full'')))"
    using t [THEN conjunct2, rule_format, OF s] by (simp add: Itoa_1 no_files_def)
  ultimately show ?thesis
    using h(1,2) unfolding img_def by blast
qed

section \<open>What a crop shows\<close>

lemma detect_outcome_nth:
  assumes "img = working_raster env imagePath maxWidth maxHeight"
    and "faces = classifier_Detect env (CvtColor img)"
    and "k < length faces"
    and "k < length (fst (detect_outcome env name imagePath outputImagePath maxWidth maxHeight))"
  shows "fst (detect_outcome env name imagePath outputImagePath maxWidth maxHeight) ! k =
           (name (1 + int k),
            Region (annotate img (take (Suc k) faces)) (expandedRect img (faces ! k)))"
proof -
  have o: "detect_outcome env name imagePath outputImagePath maxWidth maxHeight =
             run_outcome env (crop_files name img faces) outputImagePath (annotate img faces)"
    using assms(3,4)
    by (auto simp: detect_outcome_def Let_def assms(1,2) [symmetric])
  show ?thesis
    using assms(3,4) unfolding o
    by (simp add: run_outcome_nth length_crop_files nth_crop_files crop_of_eq)
qed

text \<open>
  Claim C7. The file written for the detection at position \<open>k\<close> (from 0; the detection
  numbered \<open>k + 1\<close>), in either driver, is the view of the working raster taken when the
  outlines of the detections at positions \<open>0..k\<close> are drawn on it and no other: the
  outlines on it are those the image came with, then the expanded rectangles of these
  detections in their order, its own the last. The outlines of the later detections are
  drawn after it, on the raster that becomes the annotated output.
\<close>

theorem C7_crop_taken_after_own_outline:
  assumes "img = Resize (gocv_IMRead env imagePath) \<lparr>Pt_X = int maxWidth, Pt_Y = int maxHeight\<rparr>"
    and "faces = classifier_Detect env (CvtColor img)"
    and "k < length faces"
    and "crop = Region (annotate img (take (Suc k) faces)) (expandedRect img (faces ! k))"
    and "wb = fst (detectFace env imagePath outputImagePath outputDir maxWidth maxHeight w)"
    and "ws = fst (detectFace_single env imagePath outputImagePath maxWidth maxHeight w)"
  shows "(length (files w) + k < length (files wb) \<longrightarrow>
            files wb ! (length (files w) + k) =
              (filepath_Join env outputDir
                 (detectFace_baseFilename imagePath @ ''_face_'' @ Itoa (1 + int k) @ ''.webp''),
               crop))
       \<and> (length (files w) + k < length (files ws) \<longrightarrow>
            files ws ! (length (files w) + k) = (''face_'' @ Itoa (1 + int k) @ ''.webp'', crop))
       \<and> mat_data crop =
            Sub (foldl Outline (Scaled (mat_data (gocv_IMRead env imagePath))
                                  (int maxWidth) (int maxHeight))
                   (map (expandedRect img) (take (Suc k) faces)))
              (expandedRect img (faces ! k))
       \<and> outlines (mat_data crop) =
            outlines (mat_data (gocv_IMRead env imagePath))
            @ map (expandedRect img) (take (Suc k) faces)
       \<and> outlines (mat_data (annotate img faces)) =
            outlines (mat_data crop) @ map (expandedRect img) (drop (Suc k) faces)"
proof -
  have img: "img = working_raster env imagePath maxWidth maxHeight"
    by (simp add: assms(1) working_raster_def)
  have b: "files wb ! (length (files w) + k) =
             (filepath_Join env outputDir
                (detectFace_baseFilename imagePath @ ''_face_'' @ Itoa (1 + int k) @ ''.webp''),
              crop)"
    if "length (files w) + k < length (files wb)"
    using that detect_outcome_nth [OF img assms(2,3), of "face_path env outputDir
        (detectFace_baseFilename imagePath)" outputImagePath]
    by (simp add: assms(4,5) detectFace_outcome Let_def face_path_def)
  have s: "files ws ! (length (files w) + k) = (''face_'' @ Itoa (1 + int k) @ ''.webp'', crop)"
    if "length (files w) + k < length (files ws)"
    using that detect_outcome_nth [OF img assms(2,3), of face_path_single outputImagePath]
    by (simp add: assms(4,6) detectFace_single_outcome Let_def face_path_single_def)
  have data: "mat_data (annotate m fs) = foldl Outline (mat_data m) (map (expandedRect m) fs)"
    for m fs
    by (induction fs arbitrary: m)
       (simp_all add: annotate_Nil annotate_Cons expandedRect_Rectangle_draw
          mat_data_Rectangle_draw)
  have d: "mat_data crop =
            Sub (foldl Outline (Scaled (mat_data (gocv_IMRead env imagePath))
                                  (int maxWidth) (int maxHeight))
                   (map (expandedRect img) (take (Suc k) faces)))
              (expandedRect img (faces ! k))"
    unfolding assms(4) by (simp add: Region_def data) (simp add: assms(1) Resize_def)
  have o: "outlines (mat_data crop) =
            outlines (mat_data (gocv_IMRead env imagePath))
            @ map (expandedRect img) (take (Suc k) faces)"
    unfolding assms(4) by (simp add: Region_def outlines_annotate) (simp add: assms(1) Resize_def)
  have "outlines (mat_data (annotate img faces)) =
          outlines (mat_data (gocv_IMRead env imagePath))
          @ map (expandedRect img) (take (Suc k) faces @ drop (Suc k) faces)"
    unfolding append_take_drop_id outlines_annotate by (simp add: assms(1) Resize_def)
  then have a: "outlines (mat_data (annotate img faces)) =
            outlines (mat_data crop) @ map (expandedRect img) (drop (Suc k) faces)"
    unfolding o map_append by simp
  show ?thesis
    using b s d o a by blast
qed

lemma demo_first_outlines:
  "outlines (mat_data (gocv_IMRead demo_env ''teest.jpg''))
   @ map (expandedRect (Resize (gocv_IMRead demo_env ''teest.jpg'') \<lparr>Pt_X = int 1024, Pt_Y = int 1024\<rparr>)) (take (Suc 0) (classifier_Detect demo_env (CvtColor (Resize (gocv_IMRead demo_env ''teest.jpg'') \<lparr>Pt_X = int 1024, Pt_Y = int 1024\<rparr>)))) = [\<lparr>Rect_Min = \<lparr>Pt_X = 50, Pt_Y = 40\<rparr>, Rect_Max = \<lparr>Pt_X = 250, Pt_Y = 340\<rparr>\<rparr>]"
  by code_simp

lemma demo_later_outlines:
  "map (expandedRect (Resize (gocv_IMRead demo_env ''teest.jpg'') \<lparr>Pt_X = int 1024, Pt_Y = int 1024\<rparr>)) (drop (Suc 0) (classifier_Detect demo_env (CvtColor (Resize (gocv_IMRead demo_env ''teest.jpg'') \<lparr>Pt_X = int 1024, Pt_Y = int 1024\<rparr>)))) = [\<lparr>Rect_Min = \<lparr>Pt_X = 0, Pt_Y = 0\<rparr>, Rect_Max = \<lparr>Pt_X = 60, Pt_Y = 80\<rparr>\<rparr>]"
  by code_simp

lemma demo_first_name:
  "filepath_Join demo_env ''output_images''
     (detectFace_baseFilename ''teest.jpg'' @ ''_face_'' @ Itoa (1 + int 0) @ ''.webp'')
   = ''output_images/teest_face_1.webp''"
  by code_simp

lemma demo_first_name_single: "''face_'' @ Itoa (1 + int 0) @ ''.webp'' = ''face_1.webp''"
  by code_simp

theorem C7_crop_taken_after_own_outline_witness:
  "0 < length (classifier_Detect demo_env (CvtColor (Resize (gocv_IMRead demo_env ''teest.jpg'') \<lparr>Pt_X = int 1024, Pt_Y = int 1024\<rparr>)))
   \<and> length (files no_files) + 0 < length (files (fst (detectFace demo_env ''teest.jpg'' ''output.webp'' ''output_images'' 1024 1024 no_files)))
   \<and> length (files no_files) + 0 < length (files (fst (detectFace_single demo_env ''teest.jpg'' ''output.webp'' 1024 1024 no_files)))
   \<and> fst (files (fst (detectFace demo_env ''teest.jpg'' ''output.webp'' ''output_images'' 1024 1024 no_files)) ! (length (files no_files) + 0)) = ''output_images/teest_face_1.webp''
   \<and> fst (files (fst (detectFace_single demo_env ''teest.jpg'' ''output.webp'' 1024 1024 no_files)) ! (length (files no_files) + 0)) = ''face_1.webp''
   \<and> outlines (mat_data (snd (files (fst (detectFace demo_env ''teest.jpg'' ''output.webp'' ''output_images'' 1024 1024 no_files)) ! (length (files no_files) + 0)))) = [\<lparr>Rect_Min = \<lparr>Pt_X = 50, Pt_Y = 40\<rparr>, Rect_Max = \<lparr>Pt_X = 250, Pt_Y = 340\<rparr>\<rparr>]
   \<and> outlines (mat_data (snd (files (fst (detectFace_single demo_env ''teest.jpg'' ''output.webp'' 1024 1024 no_files)) ! (length (files no_files) + 0)))) = [\<lparr>Rect_Min = \<lparr>Pt_X = 50, Pt_Y = 40\<rparr>, Rect_Max = \<lparr>Pt_X = 250, Pt_Y = 340\<rparr>\<rparr>]
   \<and> outlines (mat_data (annotate (Resize (gocv_IMRead demo_env ''teest.jpg'') \<lparr>Pt_X = int 1024, Pt_Y = int 1024\<rparr>) (classifier_Detect demo_env (CvtColor (Resize (gocv_IMRead demo_env ''teest.jpg'') \<lparr>Pt_X = int 1024, Pt_Y = int 1024\<rparr>))))) = [\<lparr>Rect_Min = \<lparr>Pt_X = 50, Pt_Y = 40\<rparr>, Rect_Max = \<lparr>Pt_X = 250, Pt_Y = 340\<rparr>\<rparr>, \<lparr>Rect_Min = \<lparr>Pt_X = 0, Pt_Y = 0\<rparr>, Rect_Max = \<lparr>Pt_X = 60, Pt_Y = 80\<rparr>\<rparr>]"
proof -
  have k: "0 < length (classifier_Detect demo_env (CvtColor (Resize (gocv_IMRead demo_env ''teest.jpg'') \<lparr>Pt_X = int 1024, Pt_Y = int 1024\<rparr>)))"
    by (simp add: demo_env_def)
  have lb: "length (files no_files) + 0 < length (files (fst (detectFace demo_env ''teest.jpg'' ''output.webp'' ''output_images'' 1024 1024 no_files)))"
    by code_simp
  have ls: "length (files no_files) + 0 < length (files (fst (detectFace_single demo_env ''teest.jpg'' ''output.webp'' 1024 1024 no_files)))"
    by code_simp
  note t = C7_crop_taken_after_own_outline
             [where outputImagePath = "''output.webp''" and outputDir = "''output_images''"
                and w = no_files, OF refl refl k refl refl refl]
  note b = t [THEN conjunct1, rule_format, OF lb]
  note s = t [THEN conjunct2, THEN conjunct1, rule_format, OF ls]
  note o = t [THEN conjunct2, THEN conjunct2, THEN conjunct2, THEN conjunct1]
  note a = t [THEN conjunct2, THEN conjunct2, THEN conjunct2, THEN conjunct2]
  have "fst (files (fst (detectFace demo_env ''teest.jpg'' ''output.webp'' ''output_images'' 1024 1024 no_files)) ! (length (files no_files) + 0)) = ''output_images/teest_face_1.webp''"
    unfolding b fst_conv by (rule demo_first_name)
  moreover have "fst (files (fst (detectFace_single demo_env ''teest.jpg'' ''output.webp'' 1024 1024 no_files)) ! (length (files no_files) + 0)) = ''face_1.webp''"
    unfolding s fst_conv by (rule demo_first_name_single)
  moreover have "outlines (mat_data (snd (files (fst (detectFace demo_env ''teest.jpg'' ''output.webp'' ''output_images'' 1024 1024 no_files)) ! (length (files no_files) + 0)))) = [\<lparr>Rect_Min = \<lparr>Pt_X = 50, Pt_Y = 40\<rparr>, Rect_Max = \<lparr>Pt_X = 250, Pt_Y = 340\<rparr>\<rparr>]"
    unfolding b snd_conv o by (rule demo_first_outlines)
  moreover have "outlines (mat_data (snd (files (fst (detectFace_single demo_env ''teest.jpg'' ''output.webp'' 1024 1024 no_files)) ! (length (files no_files) + 0)))) = [\<lparr>Rect_Min = \<lparr>Pt_X = 50, Pt_Y = 40\<rparr>, Rect_Max = \<lparr>Pt_X = 250, Pt_Y = 340\<rparr>\<rparr>]"
    unfolding s snd_conv o by (rule demo_first_outlines)
  moreover have "outlines (mat_data (annotate (Resize (gocv_IMRead demo_env ''teest.jpg'') \<lparr>Pt_X = int 1024, Pt_Y = int 1024\<rparr>) (classifier_Detect demo_env (CvtColor (Resize (gocv_IMRead demo_env ''teest.jpg'') \<lparr>Pt_X = int 1024, Pt_Y = int 1024\<rparr>))))) = [\<lparr>Rect_Min = \<lparr>Pt_X = 50, Pt_Y = 40\<rparr>, Rect_Max = \<lparr>Pt_X = 250, Pt_Y = 340\<rparr>\<rparr>, \<lparr>Rect_Min = \<lparr>Pt_X = 0, Pt_Y = 0\<rparr>, Rect_Max = \<lparr>Pt_X = 60, Pt_Y = 80\<rparr>\<rparr>]"
    unfolding a o demo_first_outlines demo_later_outlines by simp
  ultimately show ?thesis
    using k lb ls by blast
qed

section \<open>The batch and its errors\<close>

lemma detectFace_result_any_world:
  "snd (detectFace env imagePath outputImagePath outputDir maxWidth maxHeight w) =
   snd (detectFace env imagePath outputImagePath outputDir maxWidth maxHeight w')"
  by (simp add: detectFace_outcome Let_def)

lemma detectFace_streams:
  "stdout (fst (detectFace env imagePath outputImagePath outputDir maxWidth maxHeight w)) = stdout w"
  "stderr (fst (detectFace env imagePath outputImagePath outputDir maxWidth maxHeight w)) = stderr w"
  by (simp_all add: detectFace_outcome Let_def)

lemma processImages_loop_streams:
  "stdout (processImages_loop env inputDir outputDir maxWidth maxHeight entries w) =
     stdout w
     @ concat (map (file_log env inputDir outputDir maxWidth maxHeight)
                 (filter (\<lambda>file. \<not> fi_IsDir file) entries))
   \<and> stderr (processImages_loop env inputDir outputDir maxWidth maxHeight entries w) = stderr w"
proof (induction entries arbitrary: w)
  case Nil
  show ?case by simp
next
  case (Cons entry entries)
  show ?case
  proof (cases "fi_IsDir entry")
    case True
    then show ?thesis
      by (simp add: Cons.IH)
  next
    case False
    define inputPath where "inputPath = filepath_Join env inputDir (fi_Name entry)"
    define outputImagePath where
      "outputImagePath = filepath_Join env outputDir (''output_'' @ fi_Name entry @ ''.webp'')"
    define w1 where "w1 = Printf (''Processing file: '' @ inputPath @ nl) w"
    obtain w2 res where
      d: "detectFace env inputPath outputImagePath outputDir maxWidth maxHeight w1 = (w2, res)"
      by (cases "detectFace env inputPath outputImagePath outputDir maxWidth maxHeight w1")
    have "stdout w2 = stdout w1" and "stderr w2 = stderr w1"
      using detectFace_streams [of env inputPath outputImagePath outputDir maxWidth maxHeight w1]
      unfolding d by simp_all
    then have w2: "stdout w2 = stdout w @ [''Processing file: '' @ inputPath @ nl]"
      "stderr w2 = stderr w"
      by (simp_all add: w1_def Printf_def)
    have res: "snd (detectFace env inputPath outputImagePath outputDir maxWidth maxHeight
                      no_files) = res"
      using detectFace_result_any_world
              [of env inputPath outputImagePath outputDir maxWidth maxHeight no_files w1]
      unfolding d by simp
    have log: "file_log env inputDir outputDir maxWidth maxHeight entry =
                 (''Processing file: '' @ inputPath @ nl)
                 # (case res of
                      Inl err \<Rightarrow>
                        [''Error processing file '' @ inputPath @ '': '' @ Error err @ nl]
                    | Inr _ \<Rightarrow> [])"
      unfolding file_log_def Let_def inputPath_def [symmetric] outputImagePath_def [symmetric]
        res
      by (rule refl)
    have step: "processImages_loop env inputDir outputDir maxWidth maxHeight (entry # entries) w =
                  processImages_loop env inputDir outputDir maxWidth maxHeight entries
                    (case res of
                       Inl err \<Rightarrow>
                         Printf (''Error processing file '' @ inputPath @ '': '' @ Error err @ nl)
                           w2
                     | Inr _ \<Rightarrow> w2)"
      using False
      unfolding processImages_loop.simps Let_def inputPath_def [symmetric]
        outputImagePath_def [symmetric] w1_def [symmetric] d
      by (simp split: sum.split)
    show ?thesis
      unfolding step using False
      by (cases res) (simp_all add: Cons.IH log w2 Printf_def)
  qed
qed

text \<open>
  Claim C9. In the batch driver, once the output directory is made and the input
  directory is listed, every entry that is not a directory is processed in turn: its
  line \<open>Processing file\<close> is printed, and when \<open>detectFace\<close> returns an error for it
  (the image cannot be read, or a crop or the annotated output cannot be converted,
  encoded or written) the line \<open>Error processing file\<close> with its path and the message
  follows; then the next entry is processed. Whatever these errors, nothing goes to the
  error stream and the process ends with status 0.
\<close>

theorem C9_per_file_errors_do_not_stop_the_batch:
  assumes "os_MkdirAll env ''output_images'' = None"
    and "ioutil_ReadDir env ''input_images'' = Inr entries"
  shows "snd (main env w) = 0
       \<and> stderr (fst (main env w)) = stderr w
       \<and> stdout (fst (main env w)) =
           stdout w
           @ concat
               (map (\<lambda>file.
                       (''Processing file: '' @ filepath_Join env ''input_images'' (fi_Name file)
                          @ nl)
                       # (case snd (detectFace env
                                      (filepath_Join env ''input_images'' (fi_Name file))
                                      (filepath_Join env ''output_images''
                                         (''output_'' @ fi_Name file @ ''.webp''))
                                      ''output_images'' 1024 1024 w) of
                            Inl err \<Rightarrow>
                              [''Error processing file ''
                                 @ filepath_Join env ''input_images'' (fi_Name file)
                                 @ '': '' @ Error err @ nl]
                          | Inr _ \<Rightarrow> []))
                  (filter (\<lambda>file. \<not> fi_IsDir file) entries))"
proof -
  have m: "main env w =
             (processImages_loop env ''input_images'' ''output_images'' 1024 1024 entries w, 0)"
    using assms by (simp add: main_def processImages_def)
  have l: "file_log env ''input_images'' ''output_images'' 1024 1024 =
             (\<lambda>file.
                (''Processing file: '' @ filepath_Join env ''input_images'' (fi_Name file) @ nl)
                # (case snd (detectFace env
                               (filepath_Join env ''input_images'' (fi_Name file))
                               (filepath_Join env ''output_images''
                                  (''output_'' @ fi_Name file @ ''.webp''))
                               ''output_images'' 1024 1024 w) of
                     Inl err \<Rightarrow>
                       [''Error processing file ''
                          @ filepath_Join env ''input_images'' (fi_Name file)
                          @ '': '' @ Error err @ nl]
                   | Inr _ \<Rightarrow> []))"
    by (rule ext)
       (simp add: file_log_def Let_def
          detectFace_result_any_world [of env _ _ "''output_images''" 1024 1024 no_files w])
  show ?thesis
    unfolding m fst_conv snd_conv
    using processImages_loop_streams [of env "''input_images''" "''output_images''" 1024 1024
                                         entries w]
    unfolding l by simp
qed

theorem C9_per_file_errors_do_not_stop_the_batch_witness:
  "os_MkdirAll demo_env ''output_images'' = None
   \<and> ioutil_ReadDir demo_env ''input_images'' =
       Inr [\<lparr>fi_Name = ''old'', fi_IsDir = True\<rparr>,
            \<lparr>fi_Name = ''broken.jpg'', fi_IsDir = False\<rparr>,
            \<lparr>fi_Name = ''a.jpg'', fi_IsDir = False\<rparr>]
   \<and> snd (main demo_env no_files) = 0
   \<and> stderr (fst (main demo_env no_files)) = []
   \<and> stdout (fst (main demo_env no_files)) =
       [''Processing file: input_images/broken.jpg'' @ nl,
        ''Error processing file input_images/broken.jpg: error reading image'' @ nl,
        ''Processing file: input_images/a.jpg'' @ nl]"
proof -
  have h: "os_MkdirAll demo_env ''output_images'' = None"
    "ioutil_ReadDir demo_env ''input_images'' =
       Inr [\<lparr>fi_Name = ''old'', fi_IsDir = True\<rparr>,
            \<lparr>fi_Name = ''broken.jpg'', fi_IsDir = False\<rparr>,
            \<lparr>fi_Name = ''a.jpg'', fi_IsDir = False\<rparr>]"
    by (simp_all add: demo_env_def)
  note t = C9_per_file_errors_do_not_stop_the_batch [OF h, of no_files]
  have "snd (main demo_env no_files) = 0"
    by (rule t [THEN conjunct1])
  moreover have "stderr (fst (main demo_env no_files)) = []"
    unfolding t [THEN conjunct2, THEN conjunct1] by (simp add: no_files_def)
  moreover have "stdout (fst (main demo_env no_files)) =
       [''Processing file: input_images/broken.jpg'' @ nl,
        ''Error processing file input_images/broken.jpg: error reading image'' @ nl,
        ''Processing file: input_images/a.jpg'' @ nl]"
    unfolding t [THEN conjunct2, THEN conjunct2] by code_simp
  ultimately show ?thesis
    using h by blast
qed

section \<open>A cascade file that does not load\<close>

lemma detectFace_no_cascade:
  "\<not> classifier_Load env ''haarcascade_frontalface_default.xml'' \<Longrightarrow>
   detectFace env imagePath outputImagePath outputDir maxWidth maxHeight w = (w, Inl Err_cascade)"
  by (simp add: detectFace_def)

lemma processImages_loop_no_cascade:
  assumes "\<not> classifier_Load env ''haarcascade_frontalface_default.xml''"
  shows "processImages_loop env inputDir outputDir maxWidth maxHeight entries w =
           w\<lparr>stdout := stdout w
                @ concat
                    (map (\<lambda>file.
                            [''Processing file: '' @ filepath_Join env inputDir (fi_Name file)
                               @ nl,
                             ''Error processing file ''
                               @ filepath_Join env inputDir (fi_Name file)
                               @ '': error loading Haar cascade file'' @ nl])
                       (filter (\<lambda>file. \<not> fi_IsDir file) entries))\<rparr>"
proof (induction entries arbitrary: w)
  case Nil
  show ?case by simp
next
  case (Cons entry entries)
  show ?case
    by (simp add: Cons.IH detectFace_no_cascade [OF assms] Printf_def Let_def)
qed

text \<open>
  Claim C2, as the specification states it, fails for the batch driver: with a cascade
  file that does not load, the run over a directory of two images prints the error of
  each image on the standard output, writes nothing to the error stream and ends with
  status 0.
\<close>

theorem C2_missing_cascade_counterexample:
  "\<not> classifier_Load demo_env_no_cascade ''haarcascade_frontalface_default.xml''
   \<and> snd (main demo_env_no_cascade no_files) = 0
   \<and> stderr (fst (main demo_env_no_cascade no_files)) = []
   \<and> stdout (fst (main demo_env_no_cascade no_files)) =
       [''Processing file: input_images/broken.jpg'' @ nl,
        ''Error processing file input_images/broken.jpg: error loading Haar cascade file'' @ nl,
        ''Processing file: input_images/a.jpg'' @ nl,
        ''Error processing file input_images/a.jpg: error loading Haar cascade file'' @ nl]"
  by code_simp

text \<open>
  Claim C2, amended. When the cascade file does not load, the single-image driver
  treats it as fatal: it prints the diagnostic to the error stream and ends with status
  1, nothing else done. The batch driver, the output directory made and the input
  directory listed, reports it for each entry that is not a directory, as an error of
  that file on the standard output, goes on to the next entry, writes no file and
  nothing to the error stream, and ends with status 0.
\<close>

theorem C2_missing_cascade_amended:
  assumes "\<not> classifier_Load env ''haarcascade_frontalface_default.xml''"
  shows "main_single env w =
           (w\<lparr>stderr := stderr w
                 @ [''Error: failed to detect face: error loading Haar cascade file'' @ nl]\<rparr>,
            1)
       \<and> (os_MkdirAll env ''output_images'' = None
          \<and> ioutil_ReadDir env ''input_images'' = Inr entries \<longrightarrow>
          main env w =
            (w\<lparr>stdout := stdout w
                  @ concat
                      (map (\<lambda>file.
                              [''Processing file: ''
                                 @ filepath_Join env ''input_images'' (fi_Name file) @ nl,
                               ''Error processing file ''
                                 @ filepath_Join env ''input_images'' (fi_Name file)
                                 @ '': error loading Haar cascade file'' @ nl])
                         (filter (\<lambda>file. \<not> fi_IsDir file) entries))\<rparr>,
             0))"
proof (intro conjI impI)
  show "main_single env w =
          (w\<lparr>stderr := stderr w
                @ [''Error: failed to detect face: error loading Haar cascade file'' @ nl]\<rparr>,
           1)"
    using assms
    by (simp add: main_single_def processImage_def detectFace_single_def Fprintf_Stderr_def)
next
  assume "os_MkdirAll env ''output_images'' = None
          \<and> ioutil_ReadDir env ''input_images'' = Inr entries"
  then show "main env w =
          (w\<lparr>stdout := stdout w
                @ concat
                    (map (\<lambda>file.
                            [''Processing file: ''
                               @ filepath_Join env ''input_images'' (fi_Name file) @ nl,
                             ''Error processing file ''
                               @ filepath_Join env ''input_images'' (fi_Name file)
                               @ '': error loading Haar cascade file'' @ nl])
                       (filter (\<lambda>file. \<not> fi_IsDir file) entries))\<rparr>,
           0)"
    by (simp add: main_def processImages_def processImages_loop_no_cascade [OF assms] Let_def)
qed

theorem C2_missing_cascade_amended_witness:
  "\<not> classifier_Load demo_env_no_cascade ''haarcascade_frontalface_default.xml''
   \<and> os_MkdirAll demo_env_no_cascade ''output_images'' = None
   \<and> ioutil_ReadDir demo_env_no_cascade ''input_images'' =
       Inr [\<lparr>fi_Name = ''old'', fi_IsDir = True\<rparr>,
            \<lparr>fi_Name = ''broken.jpg'', fi_IsDir = False\<rparr>,
            \<lparr>fi_Name = ''a.jpg'', fi_IsDir = False\<rparr>]
   \<and> main_single demo_env_no_cascade no_files =
       (no_files\<lparr>stderr := stderr no_files
          @ [''Error: failed to detect face: error loading Haar cascade file'' @ nl]\<rparr>, 1)
   \<and> snd (main demo_env_no_cascade no_files) = 0
   \<and> files (fst (main demo_env_no_cascade no_files)) = []
   \<and> stderr (fst (main demo_env_no_cascade no_files)) = []"
proof -
  have h: "\<not> classifier_Load demo_env_no_cascade ''haarcascade_frontalface_default.xml''"
    by (simp add: demo_env_no_cascade_def)
  have d: "os_MkdirAll demo_env_no_cascade ''output_images'' = None
   \<and> ioutil_ReadDir demo_env_no_cascade ''input_images'' =
       Inr [\<lparr>fi_Name = ''old'', fi_IsDir = True\<rparr>,
            \<lparr>fi_Name = ''broken.jpg'', fi_IsDir = False\<rparr>,
            \<lparr>fi_Name = ''a.jpg'', fi_IsDir = False\<rparr>]"
    by (simp add: demo_env_no_cascade_def demo_env_def)
  note t = C2_missing_cascade_amended [OF h, of no_files]
  note m = t [THEN conjunct2, rule_format, OF d]
  have "snd (main demo_env_no_cascade no_files) = 0"
    and "files (fst (main demo_env_no_cascade no_files)) = []"
    and "stderr (fst (main demo_env_no_cascade no_files)) = []"
    unfolding m by (simp_all add: no_files_def)
  then show ?thesis
    using h d t [THEN conjunct1] by blast
qed

end
